theory Spec2Isabelle
  imports Complex_Main "HOL-Library.Log_Nat"
begin

section \<open>openmumble: push-to-talk dictation\<close>

text \<open>
  A shallow embedding of the Python package \<^verbatim>\<open>openmumble\<close>: the hotkey
  handling of \<^verbatim>\<open>app.py\<close>, the recorder of \<^verbatim>\<open>audio.py\<close>, the
  transcriber of \<^verbatim>\<open>transcriber.py\<close>, the cleanup processor of
  \<^verbatim>\<open>processor.py\<close> and the inserter of \<^verbatim>\<open>inserter.py\<close>.

  Conventions of the embedding.
  \<^item> A Python object with mutable fields is a record; a method takes the record and
    returns the updated one. A private field \<^verbatim>\<open>self._x\<close> is the record field
    \<open>self_x\<close>.
  \<^item> An exception is a value of the type \<open>error\<close>; a call that may raise returns
    \<open>error + 'a\<close>, or an \<open>error option\<close> beside the state it has mutated before it
    raised.
  \<^item> What a function prints, and every call it makes into a library outside the
    package, is an \<open>effect\<close>; a function returns the list of its effects in order.
  \<^item> The libraries outside the package (pynput, sounddevice, numpy, faster-whisper,
    anthropic, subprocess, pyperclip) are not part of the sources. What they return is
    read from the record \<open>env\<close>; what the code relies on of numpy and pynput is
    written out below.
  \<^item> sounddevice is taken to work: a stream opens, calls the callback while it is
    open, and closes. The failures of the capture device are outside the model.
  \<^item> A \<open>string\<close> is a Python \<^verbatim>\<open>str\<close> whose code points are below 256; one
    \<open>char\<close> is one code point.
\<close>

subsection \<open>Strings\<close>

text \<open>\<^verbatim>\<open>str.lower\<close> on code points below 256: the ASCII capitals and the Latin-1
  capitals (U+00C0 to U+00DE, without the multiplication sign U+00D7) move up by 32.\<close>

definition lower_char :: "char \<Rightarrow> char" where
  "lower_char c =
     (let n = (of_char c :: nat)
      in if (65 \<le> n \<and> n \<le> 90) \<or> (192 \<le> n \<and> n \<le> 222 \<and> n \<noteq> 215)
         then char_of (n + 32) else c)"

definition lower :: "string \<Rightarrow> string" where
  "lower s = map lower_char s"

text \<open>\<^verbatim>\<open>s.rstrip(chars)\<close>: the longest suffix made of characters of \<open>chars\<close> is
  removed.\<close>

definition rstrip :: "string \<Rightarrow> string \<Rightarrow> string" where
  "rstrip chars s = rev (dropWhile (\<lambda>c. c \<in> set chars) (rev s))"

text \<open>\<^verbatim>\<open>str.isspace\<close> for one code point below 256: U+0009 to U+000D, U+001C to
  U+0020, U+0085 and U+00A0.\<close>

definition is_space :: "char \<Rightarrow> bool" where
  "is_space c =
     (let n = (of_char c :: nat)
      in (9 \<le> n \<and> n \<le> 13) \<or> (28 \<le> n \<and> n \<le> 32) \<or> n = 133 \<or> n = 160)"

text \<open>\<^verbatim>\<open>s.strip()\<close>: leading and trailing whitespace is removed.\<close>

definition strip :: "string \<Rightarrow> string" where
  "strip s = rev (dropWhile is_space (rev (dropWhile is_space s)))"

text \<open>\<^verbatim>\<open>sep.join(parts)\<close>.\<close>

fun join :: "string \<Rightarrow> string list \<Rightarrow> string" where
  "join sep [] = []"
| "join sep [p] = p"
| "join sep (p # q # ps) = p @ sep @ join sep (q # ps)"

subsection \<open>Exceptions\<close>

text \<open>\<open>ValueError\<close>, \<open>IndexError\<close>, \<open>ZeroDivisionError\<close> and \<open>AttributeError\<close> are raised by the
  package or by the Python operations it uses; \<open>LibraryError\<close> is any exception (a
  subclass of \<^verbatim>\<open>Exception\<close>) that a library outside the package raises, with
  its message.\<close>

datatype error =
    ValueError string
  | IndexError
  | ZeroDivisionError
  | AttributeError
  | LibraryError string

subsection \<open>Keys (pynput) and the hotkey\<close>

text \<open>
  pynput delivers a key as a member of the enumeration \<^verbatim>\<open>keyboard.Key\<close> or as a
  \<^verbatim>\<open>keyboard.KeyCode\<close>. A member of the enumeration is known by its name
  (\<^verbatim>\<open>ctrl_l\<close>, \<^verbatim>\<open>ctrl_r\<close>, \<^verbatim>\<open>f1\<close>, ...), a key code with a character
  (such as \<^verbatim>\<open>KeyCode.from_char\<close> makes) by its character. Two such keys are
  equal when they are of the same kind and their names (characters) are equal.
  \<open>OtherKey\<close> is what else pynput may deliver (\<^verbatim>\<open>None\<close> for an unknown key, a
  key code without a character): it is neither a member of the enumeration nor equal
  to a hotkey that \<^verbatim>\<open>_resolve_hotkey\<close> returns.
\<close>

datatype key = Key string | KeyCode string | OtherKey

text \<open>The table \<^verbatim>\<open>_SPECIAL_KEYS\<close>, in the order of the source.\<close>

definition SPECIAL_KEYS :: "(string \<times> key) list" where
  "SPECIAL_KEYS =
     [(''ctrl'', Key ''ctrl_l''),
      (''alt'', Key ''alt_l''),
      (''shift'', Key ''shift_l''),
      (''cmd'', Key ''cmd_l''),
      (''option'', Key ''alt_l''),
      (''f1'', Key ''f1''),
      (''f2'', Key ''f2''),
      (''f3'', Key ''f3''),
      (''f4'', Key ''f4''),
      (''f5'', Key ''f5''),
      (''f6'', Key ''f6''),
      (''f7'', Key ''f7''),
      (''f8'', Key ''f8''),
      (''f9'', Key ''f9''),
      (''f10'', Key ''f10''),
      (''f11'', Key ''f11''),
      (''f12'', Key ''f12'')]"

text \<open>\<^verbatim>\<open>App._resolve_hotkey\<close>: a name of the table (after lower-casing), else a
  single character, else \<^verbatim>\<open>ValueError\<close>.\<close>

definition resolve_hotkey :: "string \<Rightarrow> error + key" where
  "resolve_hotkey name =
     (case map_of SPECIAL_KEYS (lower name) of
        Some k \<Rightarrow> Inr k
      | None \<Rightarrow> if length name = 1 then Inr (KeyCode name) else Inl (ValueError name))"

text \<open>\<^verbatim>\<open>App._key_matches\<close>, with the hotkey as first argument. For a hotkey of the
  enumeration, a key of the enumeration matches when the two names agree after
  \<^verbatim>\<open>rstrip("_lr")\<close> or the keys are equal, and no other key matches. For any
  other hotkey the keys must be equal.\<close>

fun key_matches :: "key \<Rightarrow> key \<Rightarrow> bool" where
  "key_matches (Key h) (Key k) = (rstrip ''_lr'' k = rstrip ''_lr'' h \<or> Key k = Key h)"
| "key_matches (Key h) k = False"
| "key_matches h k = (k = h)"

subsection \<open>Arrays (numpy)\<close>

text \<open>
  A sample is a \<^verbatim>\<open>float32\<close> in the source. The recorder of the embedding
  computes with exact real numbers, without the rounding of \<^verbatim>\<open>float32\<close>
  arithmetic; the rounding is defined further below and the example of the
  specification is checked with it as well (\<open>example_mean_float32\<close>).

  An array of the source has one or two dimensions. \<open>Arr1 xs\<close> has the shape
  \<open>(length xs)\<close>; \<open>Arr2 c rows\<close> has the shape \<open>(length rows, c)\<close>, one row per
  frame and one column per channel, and every row of a well-formed array has \<open>c\<close>
  entries. sounddevice delivers each chunk to the callback as an array of the shape
  \<open>(frames, channels)\<close>.
\<close>

type_synonym sample = real

datatype ndarray = Arr1 "sample list" | Arr2 nat "sample list list"

fun wf_ndarray :: "ndarray \<Rightarrow> bool" where
  "wf_ndarray (Arr1 xs) = True"
| "wf_ndarray (Arr2 c rows) = list_all (\<lambda>row. length row = c) rows"

fun ndim :: "ndarray \<Rightarrow> nat" where
  "ndim (Arr1 xs) = 1"
| "ndim (Arr2 c rows) = 2"

fun size_nd :: "ndarray \<Rightarrow> nat" where
  "size_nd (Arr1 xs) = length xs"
| "size_nd (Arr2 c rows) = length rows * c"

text \<open>\<^verbatim>\<open>np.concatenate(arrays, axis=0)\<close>: the arrays are joined along the first
  axis, in the order of the list. numpy raises \<^verbatim>\<open>ValueError\<close> for an empty list,
  for arrays of different dimensions and for two-dimensional arrays of different
  widths.\<close>

fun concatenate2 :: "ndarray \<Rightarrow> ndarray \<Rightarrow> error + ndarray" where
  "concatenate2 (Arr1 xs) (Arr1 ys) = Inr (Arr1 (xs @ ys))"
| "concatenate2 (Arr2 c xs) (Arr2 d ys) =
     (if c = d then Inr (Arr2 c (xs @ ys))
      else Inl (ValueError ''all the input array dimensions except for the concatenation axis must match exactly''))"
| "concatenate2 a b = Inl (ValueError ''all the input arrays must have same number of dimensions'')"

fun concatenate :: "ndarray list \<Rightarrow> error + ndarray" where
  "concatenate [] = Inl (ValueError ''need at least one array to concatenate'')"
| "concatenate [a] = Inr a"
| "concatenate (a # b # bs) =
     (case concatenate2 a b of
        Inl e \<Rightarrow> Inl e
      | Inr ab \<Rightarrow> concatenate (ab # bs))"

text \<open>\<^verbatim>\<open>audio.mean(axis=1)\<close> of a two-dimensional array: each row is replaced by
  the sum of its entries divided by the number of columns. The source calls it on
  arrays of more than one dimension only; an array of one dimension is returned as it
  is here. For an array with no column numpy gives NaN, which the exact model does not
  have: the theorems on the mean are about arrays with at least one column.\<close>

definition mean_row :: "nat \<Rightarrow> sample list \<Rightarrow> sample" where
  "mean_row c row = sum_list row / of_nat c"

fun mean_axis1 :: "ndarray \<Rightarrow> ndarray" where
  "mean_axis1 (Arr2 c rows) = Arr1 (map (mean_row c) rows)"
| "mean_axis1 (Arr1 xs) = Arr1 xs"

subsection \<open>The recorder (audio.py)\<close>

record AudioConfig =
  sample_rate :: int
  channels :: int

text \<open>An open \<^verbatim>\<open>sd.InputStream\<close>, with the sample rate and the channel count it
  was opened with.\<close>

datatype stream = InputStream int int

record Recorder =
  rec_sample_rate :: int
  rec_channels :: int
  self_frames :: "ndarray list"
  self_stream :: "stream option"

text \<open>\<^verbatim>\<open>Recorder.__init__\<close>.\<close>

definition Recorder_init :: "AudioConfig \<Rightarrow> Recorder" where
  "Recorder_init acfg =
     \<lparr>rec_sample_rate = sample_rate acfg, rec_channels = channels acfg,
      self_frames = [], self_stream = None\<rparr>"

text \<open>\<^verbatim>\<open>Recorder.start\<close>: the frame list is cleared and a stream is opened and
  started.\<close>

definition Recorder_start :: "Recorder \<Rightarrow> Recorder" where
  "Recorder_start r =
     r\<lparr>self_frames := [],
       self_stream := Some (InputStream (rec_sample_rate r) (rec_channels r))\<rparr>"

text \<open>\<^verbatim>\<open>Recorder.stop\<close>: the stream is closed; with no frame the empty
  one-dimensional array is returned; otherwise the frames are concatenated, the frame
  list is cleared, and an array of more than one dimension is averaged over its
  channels. When \<^verbatim>\<open>np.concatenate\<close> raises, the stream is closed already and the
  frames are still there.\<close>

definition Recorder_stop :: "Recorder \<Rightarrow> Recorder \<times> (error + ndarray)" where
  "Recorder_stop r =
     (let r1 = r\<lparr>self_stream := None\<rparr>
      in if self_frames r1 = [] then (r1, Inr (Arr1 []))
         else (case concatenate (self_frames r1) of
                 Inl e \<Rightarrow> (r1, Inl e)
               | Inr audio \<Rightarrow>
                   (r1\<lparr>self_frames := []\<rparr>,
                    Inr (if ndim audio > 1 then mean_axis1 audio else audio))))"

subsection \<open>Effects and the libraries outside the package\<close>

text \<open>The lines the package prints. The times of the stages, which the source
  formats into \<^verbatim>\<open>Raw\<close>, \<^verbatim>\<open>Cleaned\<close> and \<^verbatim>\<open>Done\<close>, are left out;
  \<open>Captured n rate\<close> stands for the line that shows \<open>n / rate\<close> seconds.\<close>

datatype line =
    Ready string
  | RecordingStarted
  | NoAudioCaptured
  | Captured nat int
  | NoSpeechDetected
  | Raw string
  | Cleaned string
  | Done
  | AudioStatus
  | LoadingModel string string string
  | ModelLoaded
  | NoApiKey
  | CleanupFailed error
  | ClipboardOnly string

text \<open>The three stages of a pipeline run.\<close>

datatype stage = Transcription | Cleanup | Insertion

text \<open>
  \<^item> \<open>Print l\<close>: a line on the standard output.
  \<^item> \<open>Spawn audio\<close>: a daemon thread is started on \<^verbatim>\<open>App._process(audio)\<close>;
    \<open>SpawnWarmup\<close>: the thread that \<^verbatim>\<open>App.run\<close> starts on
    \<^verbatim>\<open>transcribe\<close> of an empty array.
  \<^item> \<open>Traceback e\<close>: the exception \<open>e\<close> left the target of a thread; Python's
    \<^verbatim>\<open>threading.excepthook\<close> prints its traceback on the standard error and the
    thread ends, the process goes on.
  \<^item> \<open>Invoke st\<close>: \<^verbatim>\<open>App._process\<close> calls the adapter of the stage \<open>st\<close>
    (\<^verbatim>\<open>Transcriber.transcribe\<close>, \<^verbatim>\<open>Processor.cleanup\<close>,
    \<^verbatim>\<open>insert_text\<close>).
  \<^item> The others are calls into the libraries: the speech-to-text model is built
    or run, the API client is built, a request is sent to the API, a subprocess is
    run (command and standard input), the clipboard is written by pyperclip.
\<close>

datatype effect =
    Print line
  | Spawn ndarray
  | SpawnWarmup
  | Traceback error
  | Invoke stage
  | NewWhisperModel string string string
  | ModelTranscribe ndarray
  | NewAnthropic string
  | MessagesCreate string string
  | SubprocessRun "string list" string
  | PyperclipCopy string

text \<open>
  What the libraries answer.
  \<^item> \<open>import_faster_whisper\<close>: the exception of
    \<^verbatim>\<open>from faster_whisper import WhisperModel\<close>, if any.
  \<^item> \<open>new_WhisperModel size device compute\<close>: the exception of the constructor, if
    any.
  \<^item> \<open>model_transcribe audio\<close>: the texts of the segments, or the exception raised
    while the segments are produced.
  \<^item> \<open>new_Anthropic key\<close>: the exception of \<^verbatim>\<open>import anthropic\<close> or of the
    constructor of the client, if any.
  \<^item> \<open>messages_create model content\<close>: the content blocks of the response, each with
    its text if it has one, or the exception of the request.
  \<^item> \<open>platform_system\<close>: the answer of \<^verbatim>\<open>platform.system()\<close>.
  \<^item> \<open>subprocess_run cmd input\<close>: the exception of
    \<^verbatim>\<open>subprocess.run(cmd, input=..., check=True)\<close>, if any.
  \<^item> \<open>pyperclip_copy text\<close>: the exception of \<^verbatim>\<open>import pyperclip\<close> or of
    \<^verbatim>\<open>pyperclip.copy\<close>, if any.
\<close>

record env =
  import_faster_whisper :: "error option"
  new_WhisperModel :: "string \<Rightarrow> string \<Rightarrow> string \<Rightarrow> error option"
  model_transcribe :: "ndarray \<Rightarrow> error + string list"
  new_Anthropic :: "string \<Rightarrow> error option"
  messages_create :: "string \<Rightarrow> string \<Rightarrow> error + string option list"
  platform_system :: string
  subprocess_run :: "string list \<Rightarrow> string \<Rightarrow> error option"
  pyperclip_copy :: "string \<Rightarrow> error option"

subsection \<open>Configuration (config.py)\<close>

record WhisperConfig =
  model_size :: string
  device :: string
  compute_type :: string

text \<open>The fields \<^verbatim>\<open>whisper\<close> and \<^verbatim>\<open>audio\<close> of the source are \<open>cfg_whisper\<close>
  and \<open>cfg_audio\<close> here.\<close>

record Config =
  anthropic_api_key :: string
  claude_model :: string
  cfg_whisper :: WhisperConfig
  cfg_audio :: AudioConfig
  hotkey :: string
  enable_cleanup :: bool

text \<open>The defaults of the dataclasses.\<close>

definition default_Config :: Config where
  "default_Config =
     \<lparr>anthropic_api_key = [], claude_model = ''claude-sonnet-4-20250514'',
      cfg_whisper = \<lparr>model_size = ''small.en'', device = ''auto'', compute_type = ''int8''\<rparr>,
      cfg_audio = \<lparr>sample_rate = 16000, channels = 1\<rparr>,
      hotkey = ''ctrl'', enable_cleanup = True\<rparr>"

subsection \<open>The callback of the recorder (audio.py)\<close>

text \<open>\<^verbatim>\<open>Recorder._callback\<close>: a line is printed when the status is set, and a
  copy of the chunk is appended to the frames.\<close>

definition Recorder_callback :: "Recorder \<Rightarrow> ndarray \<Rightarrow> bool \<Rightarrow> Recorder \<times> effect list" where
  "Recorder_callback r indata status =
     (r\<lparr>self_frames := self_frames r @ [indata]\<rparr>,
      if status then [Print AudioStatus] else [])"

subsection \<open>The transcriber (transcriber.py)\<close>

datatype whisper_model = WhisperModel string string string

record Transcriber =
  self_wcfg :: WhisperConfig
  self_model :: "whisper_model option"

definition Transcriber_init :: "WhisperConfig \<Rightarrow> Transcriber" where
  "Transcriber_init wcfg = \<lparr>self_wcfg = wcfg, self_model = None\<rparr>"

text \<open>\<^verbatim>\<open>Transcriber._load_model\<close>: the import, the line that announces the
  loading, the constructor, the assignment to \<^verbatim>\<open>self._model\<close> and the line that
  reports it.\<close>

definition load_model :: "env \<Rightarrow> Transcriber \<Rightarrow> Transcriber \<times> effect list \<times> error option" where
  "load_model env t =
     (case import_faster_whisper env of
        Some e \<Rightarrow> (t, [], Some e)
      | None \<Rightarrow>
          (let size = model_size (self_wcfg t);
               dev = (if device (self_wcfg t) = ''auto'' then ''cpu'' else device (self_wcfg t));
               compute = compute_type (self_wcfg t);
               fx = [Print (LoadingModel size dev compute), NewWhisperModel size dev compute]
           in case new_WhisperModel env size dev compute of
                Some e \<Rightarrow> (t, fx, Some e)
              | None \<Rightarrow>
                  (t\<lparr>self_model := Some (WhisperModel size dev compute)\<rparr>,
                   fx @ [Print ModelLoaded], None)))"

text \<open>\<^verbatim>\<open>Transcriber.transcribe\<close>: an array of size 0 gives the empty string at
  once; otherwise the model is loaded if it is not yet, the model is run, and the
  stripped texts of the segments are joined by a blank and stripped.\<close>

definition Transcriber_transcribe ::
  "env \<Rightarrow> Transcriber \<Rightarrow> ndarray \<Rightarrow> Transcriber \<times> effect list \<times> (error + string)" where
  "Transcriber_transcribe env t audio =
     (if size_nd audio = 0 then (t, [], Inr [])
      else (case (if self_model t = None then load_model env t else (t, [], None)) of
              (t1, fx, Some e) \<Rightarrow> (t1, fx, Inl e)
            | (t1, fx, None) \<Rightarrow>
                (case model_transcribe env audio of
                   Inl e \<Rightarrow> (t1, fx @ [ModelTranscribe audio], Inl e)
                 | Inr segments \<Rightarrow>
                     (t1, fx @ [ModelTranscribe audio],
                      Inr (strip (join '' '' (map strip segments)))))))"

subsection \<open>The cleanup processor (processor.py)\<close>

datatype client = Anthropic string

record Processor =
  self_cfg :: Config
  self_client :: "client option"

definition Processor_init :: "Config \<Rightarrow> Processor" where
  "Processor_init c = \<lparr>self_cfg = c, self_client = None\<rparr>"

text \<open>\<^verbatim>\<open>Processor._ensure_client\<close>: nothing when the client is there; else the
  import and the constructor, whose exception is not caught.\<close>

definition ensure_client :: "env \<Rightarrow> Processor \<Rightarrow> Processor \<times> effect list \<times> error option" where
  "ensure_client env p =
     (if self_client p \<noteq> None then (p, [], None)
      else (let k = anthropic_api_key (self_cfg p)
            in case new_Anthropic env k of
                 Some e \<Rightarrow> (p, [NewAnthropic k], Some e)
               | None \<Rightarrow> (p\<lparr>self_client := Some (Anthropic k)\<rparr>, [NewAnthropic k], None)))"

text \<open>\<^verbatim>\<open>Processor.cleanup\<close>. A text that is empty after stripping is returned as
  it is; so is the text when no API key is configured, after a line that says so. Then
  the client is made sure of, outside the \<^verbatim>\<open>try\<close>. Inside the \<^verbatim>\<open>try\<close>
  the request is sent and the stripped text of the first content block is returned:
  the exception of the request, \<^verbatim>\<open>IndexError\<close> for a response without a block and
  \<^verbatim>\<open>AttributeError\<close> for a block without text are caught, a line reports the
  failure and the raw text is returned.\<close>

definition Processor_cleanup ::
  "env \<Rightarrow> Processor \<Rightarrow> string \<Rightarrow> Processor \<times> effect list \<times> (error + string)" where
  "Processor_cleanup env p raw_text =
     (if strip raw_text = [] then (p, [], Inr raw_text)
      else if anthropic_api_key (self_cfg p) = [] then (p, [Print NoApiKey], Inr raw_text)
      else (case ensure_client env p of
              (p1, fx, Some e) \<Rightarrow> (p1, fx, Inl e)
            | (p1, fx, None) \<Rightarrow>
                (let fx1 = fx @ [MessagesCreate (claude_model (self_cfg p1)) raw_text]
                 in case messages_create env (claude_model (self_cfg p1)) raw_text of
                      Inl e \<Rightarrow> (p1, fx1 @ [Print (CleanupFailed e)], Inr raw_text)
                    | Inr [] \<Rightarrow> (p1, fx1 @ [Print (CleanupFailed IndexError)], Inr raw_text)
                    | Inr (None # blocks) \<Rightarrow>
                        (p1, fx1 @ [Print (CleanupFailed AttributeError)], Inr raw_text)
                    | Inr (Some txt # blocks) \<Rightarrow> (p1, fx1, Inr (strip txt)))))"

subsection \<open>The inserter (inserter.py)\<close>

definition osascript_cmd :: "string list" where
  \<open>osascript_cmd =
     [''osascript'', ''-e'',
      ''tell application "System Events" to keystroke "v" using command down'']\<close>

text \<open>\<^verbatim>\<open>_insert_macos\<close>: \<^verbatim>\<open>pbcopy\<close> with the text on its input, then the
  keystroke by \<^verbatim>\<open>osascript\<close>; the exception of the first leaves the second
  undone.\<close>

definition insert_macos :: "env \<Rightarrow> string \<Rightarrow> effect list \<times> error option" where
  "insert_macos env text =
     (case subprocess_run env [''pbcopy''] text of
        Some e \<Rightarrow> ([SubprocessRun [''pbcopy''] text], Some e)
      | None \<Rightarrow>
          ([SubprocessRun [''pbcopy''] text, SubprocessRun osascript_cmd []],
           subprocess_run env osascript_cmd []))"

text \<open>\<^verbatim>\<open>_insert_linux\<close>: \<^verbatim>\<open>xclip\<close> with the text on its input, then the
  keystroke by \<^verbatim>\<open>xdotool\<close>.\<close>

definition insert_linux :: "env \<Rightarrow> string \<Rightarrow> effect list \<times> error option" where
  "insert_linux env text =
     (case subprocess_run env [''xclip'', ''-selection'', ''clipboard''] text of
        Some e \<Rightarrow> ([SubprocessRun [''xclip'', ''-selection'', ''clipboard''] text], Some e)
      | None \<Rightarrow>
          ([SubprocessRun [''xclip'', ''-selection'', ''clipboard''] text,
            SubprocessRun [''xdotool'', ''key'', ''ctrl+v''] []],
           subprocess_run env [''xdotool'', ''key'', ''ctrl+v''] []))"

text \<open>\<^verbatim>\<open>insert_text\<close>: by the platform; on any other platform the text is copied
  by pyperclip and a line says that it was not pasted.\<close>

definition insert_text :: "env \<Rightarrow> string \<Rightarrow> effect list \<times> error option" where
  "insert_text env text =
     (let system = platform_system env
      in if system = ''Darwin'' then insert_macos env text
         else if system = ''Linux'' then insert_linux env text
         else (case pyperclip_copy env text of
                 Some e \<Rightarrow> ([PyperclipCopy text], Some e)
               | None \<Rightarrow> ([PyperclipCopy text, Print (ClipboardOnly system)], None)))"

subsection \<open>The application (app.py)\<close>

record App =
  cfg :: Config
  recorder :: Recorder
  transcriber :: Transcriber
  processor :: "Processor option"
  self_recording :: bool
  self_hotkey :: key

text \<open>\<^verbatim>\<open>App.__init__\<close>: the exception of \<^verbatim>\<open>_resolve_hotkey\<close> leaves the
  constructor, and no application object exists.\<close>

definition App_init :: "Config \<Rightarrow> error + App" where
  "App_init c =
     (case resolve_hotkey (hotkey c) of
        Inl e \<Rightarrow> Inl e
      | Inr h \<Rightarrow>
          Inr \<lparr>cfg = c,
               recorder = Recorder_init (cfg_audio c),
               transcriber = Transcriber_init (cfg_whisper c),
               processor = (if enable_cleanup c then Some (Processor_init c) else None),
               self_recording = False,
               self_hotkey = h\<rparr>)"

text \<open>\<^verbatim>\<open>App._on_press\<close>.\<close>

definition App_on_press :: "App \<Rightarrow> key \<Rightarrow> App \<times> effect list" where
  "App_on_press app key =
     (if key_matches (self_hotkey app) key \<and> \<not> self_recording app
      then (app\<lparr>self_recording := True, recorder := Recorder_start (recorder app)\<rparr>,
            [Print RecordingStarted])
      else (app, []))"

text \<open>\<^verbatim>\<open>App._on_release\<close>. The flag is cleared before the recorder is stopped.
  The exception of \<^verbatim>\<open>Recorder.stop\<close> and the \<^verbatim>\<open>ZeroDivisionError\<close> of
  \<^verbatim>\<open>audio.size / sample_rate\<close> leave the handler before a thread is
  started.\<close>

definition App_on_release :: "App \<Rightarrow> key \<Rightarrow> App \<times> effect list \<times> error option" where
  "App_on_release app key =
     (if key_matches (self_hotkey app) key \<and> self_recording app
      then (case Recorder_stop (recorder app) of
              (r1, res) \<Rightarrow>
                (let app1 = app\<lparr>self_recording := False, recorder := r1\<rparr>;
                     rate = sample_rate (cfg_audio (cfg app1))
                 in case res of
                      Inl e \<Rightarrow> (app1, [], Some e)
                    | Inr audio \<Rightarrow>
                        if size_nd audio = 0 then (app1, [Print NoAudioCaptured], None)
                        else if rate = 0 then (app1, [], Some ZeroDivisionError)
                        else (app1, [Print (Captured (size_nd audio) rate), Spawn audio], None)))
      else (app, [], None))"

text \<open>\<^verbatim>\<open>App._process\<close>, the target of the thread of a recording.\<close>

definition App_process :: "env \<Rightarrow> App \<Rightarrow> ndarray \<Rightarrow> App \<times> effect list \<times> error option" where
  "App_process env app audio =
     (case Transcriber_transcribe env (transcriber app) audio of
        (t1, fx_stt, res) \<Rightarrow>
          (let app1 = app\<lparr>transcriber := t1\<rparr>;
               fx1 = Invoke Transcription # fx_stt
           in case res of
                Inl e \<Rightarrow> (app1, fx1, Some e)
              | Inr raw_text \<Rightarrow>
                  if raw_text = [] then (app1, fx1 @ [Print NoSpeechDetected], None)
                  else
                    (case (case processor app1 of
                             None \<Rightarrow> (app1, [], Inr raw_text)
                           | Some p \<Rightarrow>
                               (case Processor_cleanup env p raw_text of
                                  (p1, fx_llm, r) \<Rightarrow>
                                    (app1\<lparr>processor := Some p1\<rparr>, Invoke Cleanup # fx_llm, r))) of
                       (app2, fx2, Inl e) \<Rightarrow> (app2, fx1 @ [Print (Raw raw_text)] @ fx2, Some e)
                     | (app2, fx2, Inr final_text) \<Rightarrow>
                         (let fx3 = fx1 @ [Print (Raw raw_text)] @ fx2 @
                                    (if final_text \<noteq> raw_text then [Print (Cleaned final_text)] else [])
                          in case insert_text env final_text of
                               (fx_ins, Some e) \<Rightarrow> (app2, fx3 @ Invoke Insertion # fx_ins, Some e)
                             | (fx_ins, None) \<Rightarrow>
                                 (app2, fx3 @ Invoke Insertion # fx_ins @ [Print Done], None)))))"

text \<open>The thread of a recording: \<^verbatim>\<open>threading.Thread(target=self._process,
  args=(audio,), daemon=True)\<close>. An exception that leaves the target is reported by
  its traceback and ends the thread only.\<close>

definition thread_process :: "env \<Rightarrow> App \<Rightarrow> ndarray \<Rightarrow> App \<times> effect list" where
  "thread_process env app audio =
     (case App_process env app audio of
        (app1, fx, None) \<Rightarrow> (app1, fx)
      | (app1, fx, Some e) \<Rightarrow> (app1, fx @ [Traceback e]))"

text \<open>The thread that \<^verbatim>\<open>App.run\<close> starts first: \<^verbatim>\<open>transcribe\<close> of
  \<^verbatim>\<open>numpy.array([], dtype="float32")\<close>.\<close>

definition thread_warmup :: "env \<Rightarrow> App \<Rightarrow> App \<times> effect list" where
  "thread_warmup env app =
     (case Transcriber_transcribe env (transcriber app) (Arr1 []) of
        (t1, fx, Inl e) \<Rightarrow> (app\<lparr>transcriber := t1\<rparr>, fx @ [Traceback e])
      | (t1, fx, Inr txt) \<Rightarrow> (app\<lparr>transcriber := t1\<rparr>, fx))"

subsection \<open>The listener\<close>

text \<open>What reaches the application while it runs: a key is pressed or released
  (pynput calls \<^verbatim>\<open>_on_press\<close> or \<^verbatim>\<open>_on_release\<close>), or the open stream calls
  \<^verbatim>\<open>Recorder._callback\<close> with a chunk and its status. A stream that is not open
  calls nothing.\<close>

datatype event = Press key | Release key | Callback ndarray bool

fun handle :: "App \<Rightarrow> event \<Rightarrow> App \<times> effect list \<times> error option" where
  "handle app (Press k) = (case App_on_press app k of (app1, fx) \<Rightarrow> (app1, fx, None))"
| "handle app (Release k) = App_on_release app k"
| "handle app (Callback indata status) =
     (if self_stream (recorder app) = None then (app, [], None)
      else (case Recorder_callback (recorder app) indata status of
              (r1, fx) \<Rightarrow> (app\<lparr>recorder := r1\<rparr>, fx, None)))"

text \<open>The events are handled one after the other. An exception that leaves a handler
  stops the listener: no later event is handled.\<close>

fun listener :: "App \<Rightarrow> event list \<Rightarrow> App \<times> effect list \<times> error option" where
  "listener app [] = (app, [], None)"
| "listener app (ev # evs) =
     (case handle app ev of
        (app1, fx, Some e) \<Rightarrow> (app1, fx, Some e)
      | (app1, fx, None) \<Rightarrow>
          (case listener app1 evs of (app2, fx2, err) \<Rightarrow> (app2, fx @ fx2, err)))"

text \<open>The same run, as the list of its steps: the state before an event, the event,
  and the state after it.\<close>

fun listener_trace :: "App \<Rightarrow> event list \<Rightarrow> (App \<times> event \<times> App) list" where
  "listener_trace app [] = []"
| "listener_trace app (ev # evs) =
     (case handle app ev of
        (app1, fx, Some e) \<Rightarrow> [(app, ev, app1)]
      | (app1, fx, None) \<Rightarrow> (app, ev, app1) # listener_trace app1 evs)"

text \<open>\<^verbatim>\<open>App.run\<close>: the line that the application is ready, the warm-up thread, and
  the listener on the events. (The run ends by \<^verbatim>\<open>KeyboardInterrupt\<close>, which is
  not modelled.) The exception of a handler is raised again by
  \<^verbatim>\<open>listener.join()\<close> and leaves \<^verbatim>\<open>run\<close>.\<close>

definition App_run :: "env \<Rightarrow> App \<Rightarrow> event list \<Rightarrow> App \<times> effect list \<times> error option" where
  "App_run env app evs =
     (case thread_warmup env app of
        (app1, fx_warm) \<Rightarrow>
          (case listener app1 evs of
             (app2, fx_keys, err) \<Rightarrow>
               (app2, [Print (Ready (hotkey (cfg app))), SpawnWarmup] @ fx_warm @ fx_keys, err)))"

text \<open>The end of \<^verbatim>\<open>main\<close> in \<^verbatim>\<open>__main__.py\<close>, from the loaded configuration
  on: \<^verbatim>\<open>app = App(cfg)\<close>, then \<^verbatim>\<open>app.run()\<close>. The result is what was done and
  the exception that ended the process, if any.\<close>

definition main :: "env \<Rightarrow> Config \<Rightarrow> event list \<Rightarrow> effect list \<times> error option" where
  "main env c evs =
     (case App_init c of
        Inl e \<Rightarrow> ([], Some e)
      | Inr app \<Rightarrow> (case App_run env app evs of (app1, fx, err) \<Rightarrow> (fx, err)))"

section \<open>The notions the properties are stated in\<close>

subsection \<open>Hotkeys\<close>

text \<open>The names of the table of special keys.\<close>

definition special_key_names :: "string list" where
  "special_key_names = map fst SPECIAL_KEYS"

text \<open>A string names a special key without regard to case when it agrees with one of
  the names after both are lower-cased.\<close>

definition names_special_key :: "string \<Rightarrow> bool" where
  "names_special_key name = list_ex (\<lambda>n. lower name = lower n) special_key_names"

text \<open>The modifier keys among the special keys: the name in the configuration and the
  name of the key in pynput, whose left key is \<^verbatim>\<open>_l\<close> and whose right key is
  \<^verbatim>\<open>_r\<close> (\<^verbatim>\<open>ctrl_l\<close> and \<^verbatim>\<open>ctrl_r\<close>, ...). \<^verbatim>\<open>option\<close> is the name of
  \<^verbatim>\<open>alt\<close> on macOS.\<close>

definition modifier_keys :: "(string \<times> string) list" where
  "modifier_keys =
     [(''ctrl'', ''ctrl''), (''alt'', ''alt''), (''shift'', ''shift''), (''cmd'', ''cmd''),
      (''option'', ''alt'')]"

subsection \<open>An example world\<close>

text \<open>A world in which every library does its work: the model hears two segments, the
  API answers with one block of text, the platform is Linux and the subprocesses
  succeed. The examples below change one answer at a time.\<close>

definition example_env :: env where
  "example_env =
     \<lparr>import_faster_whisper = None,
      new_WhisperModel = (\<lambda>size dev compute. None),
      model_transcribe = (\<lambda>audio. Inr ['' um hello'', ''world '']),
      new_Anthropic = (\<lambda>k. None),
      messages_create = (\<lambda>model content. Inr [Some ''Hello, world.'']),
      platform_system = ''Linux'',
      subprocess_run = (\<lambda>cmd input. None),
      pyperclip_copy = (\<lambda>text. None)\<rparr>"

text \<open>The application of the default configuration, with the hotkey \<^verbatim>\<open>ctrl\<close>, as
  \<^verbatim>\<open>App.__init__\<close> builds it.\<close>

definition example_app :: App where
  "example_app =
     \<lparr>cfg = default_Config,
      recorder = Recorder_init (cfg_audio default_Config),
      transcriber = Transcriber_init (cfg_whisper default_Config),
      processor = Some (Processor_init default_Config),
      self_recording = False,
      self_hotkey = Key ''ctrl_l''\<rparr>"


subsection \<open>Blank texts\<close>

text \<open>A text is blank when it is empty or consists of whitespace only.\<close>

definition blank :: "string \<Rightarrow> bool" where
  "blank s = list_all is_space s"

subsection \<open>The stage an effect belongs to\<close>

text \<open>What the cleanup stage does: it is invoked, it builds the client, it sends a
  request, it prints that there is no key or that the request failed; and the line with
  the cleaned text.\<close>

fun of_cleanup :: "effect \<Rightarrow> bool" where
  "of_cleanup (Invoke Cleanup) = True"
| "of_cleanup (NewAnthropic k) = True"
| "of_cleanup (MessagesCreate model content) = True"
| "of_cleanup (Print NoApiKey) = True"
| "of_cleanup (Print (CleanupFailed e)) = True"
| "of_cleanup (Print (Cleaned text)) = True"
| "of_cleanup e = False"

text \<open>What the insertion stage does: it is invoked, it runs a subprocess, it copies by
  pyperclip, it prints that the text was copied only; and the line that the text was
  inserted.\<close>

fun of_insertion :: "effect \<Rightarrow> bool" where
  "of_insertion (Invoke Insertion) = True"
| "of_insertion (SubprocessRun cmd input) = True"
| "of_insertion (PyperclipCopy text) = True"
| "of_insertion (Print (ClipboardOnly system)) = True"
| "of_insertion (Print Done) = True"
| "of_insertion e = False"

subsection \<open>A run up to the insertion\<close>

text \<open>The world in which the insertion cannot fail, and is otherwise the same.\<close>

definition insertion_succeeds :: "env \<Rightarrow> env" where
  "insertion_succeeds env =
     env\<lparr>subprocess_run := (\<lambda>cmd input. None), pyperclip_copy := (\<lambda>text. None)\<rparr>"

text \<open>\<^verbatim>\<open>App._process\<close> up to the call of \<^verbatim>\<open>insert_text\<close>: the
  transcription and the cleanup, with the state and the effects so far, and either how
  the run has ended already (\<open>Inl\<close>: with an exception or without) or the text to
  insert (\<open>Inr\<close>). It is used in the proofs only; \<open>App_process_split\<close> below relates
  it to \<open>App_process\<close>.\<close>

definition stages_before_insertion ::
  "env \<Rightarrow> App \<Rightarrow> ndarray \<Rightarrow> App \<times> effect list \<times> (error option + string)" where
  "stages_before_insertion env app audio =
     (case Transcriber_transcribe env (transcriber app) audio of
        (t1, fx_stt, res) \<Rightarrow>
          (let app1 = app\<lparr>transcriber := t1\<rparr>;
               fx1 = Invoke Transcription # fx_stt
           in case res of
                Inl e \<Rightarrow> (app1, fx1, Inl (Some e))
              | Inr raw_text \<Rightarrow>
                  if raw_text = [] then (app1, fx1 @ [Print NoSpeechDetected], Inl None)
                  else
                    (case processor app1 of
                       None \<Rightarrow> (app1, fx1 @ [Print (Raw raw_text)], Inr raw_text)
                     | Some p \<Rightarrow>
                         (case Processor_cleanup env p raw_text of
                            (p1, fx_llm, Inl e) \<Rightarrow>
                              (app1\<lparr>processor := Some p1\<rparr>,
                               fx1 @ [Print (Raw raw_text), Invoke Cleanup] @ fx_llm, Inl (Some e))
                          | (p1, fx_llm, Inr final_text) \<Rightarrow>
                              (app1\<lparr>processor := Some p1\<rparr>,
                               fx1 @ [Print (Raw raw_text), Invoke Cleanup] @ fx_llm @
                               (if final_text \<noteq> raw_text then [Print (Cleaned final_text)] else []),
                               Inr final_text)))))"

subsection \<open>The cleanup request\<close>

text \<open>The client is there or can be built.\<close>

definition client_available :: "env \<Rightarrow> Processor \<Rightarrow> bool" where
  "client_available env p =
     (self_client p \<noteq> None \<or> new_Anthropic env (anthropic_api_key (self_cfg p)) = None)"

text \<open>The request for a text fails: the API raises, or its response has no first
  block with a text.\<close>

definition request_fails :: "env \<Rightarrow> Processor \<Rightarrow> string \<Rightarrow> bool" where
  "request_fails env p raw_text =
     (case messages_create env (claude_model (self_cfg p)) raw_text of
        Inl e \<Rightarrow> True
      | Inr [] \<Rightarrow> True
      | Inr (None # blocks) \<Rightarrow> True
      | Inr (Some txt # blocks) \<Rightarrow> False)"

subsection \<open>The changes of the recording flag\<close>

text \<open>The events of a run after which \<^verbatim>\<open>_recording\<close> differs from what it was
  before, each with the new value.\<close>

definition flag_changes :: "App \<Rightarrow> event list \<Rightarrow> (event \<times> bool) list" where
  "flag_changes app evs =
     map (\<lambda>(a, ev, b). (ev, self_recording b))
       (filter (\<lambda>(a, ev, b). self_recording b \<noteq> self_recording a) (listener_trace app evs))"

text \<open>A list of changes alternates strictly from the flag \<open>b\<close> on, for the hotkey
  \<open>h\<close>: from idle (\<open>False\<close>) the next change is a press of a matching key to
  recording (\<open>True\<close>), from recording it is a release of a matching key to idle, and
  so on; no other event changes the flag.\<close>

fun alternates :: "key \<Rightarrow> bool \<Rightarrow> (event \<times> bool) list \<Rightarrow> bool" where
  "alternates h b [] = True"
| "alternates h b ((Press k, b') # xs) = (\<not> b \<and> b' \<and> key_matches h k \<and> alternates h True xs)"
| "alternates h b ((Release k, b') # xs) = (b \<and> \<not> b' \<and> key_matches h k \<and> alternates h False xs)"
| "alternates h b ((Callback indata status, b') # xs) = False"

subsection \<open>The average of a frame\<close>

definition average :: "sample list \<Rightarrow> sample" where
  "average row = sum_list row / of_nat (length row)"

subsection \<open>More examples\<close>

text \<open>Worlds that differ from the example world in one answer: the keystroke of the
  insertion fails; the request of the cleanup fails; the model hears nothing.\<close>

definition paste_fails_env :: env where
  "paste_fails_env =
     example_env\<lparr>subprocess_run :=
       (\<lambda>cmd input. if cmd = [''xdotool'', ''key'', ''ctrl+v'']
                     then Some (LibraryError ''CalledProcessError'') else None)\<rparr>"

definition request_fails_env :: env where
  "request_fails_env =
     example_env\<lparr>messages_create :=
       (\<lambda>model content. Inl (LibraryError ''APIConnectionError''))\<rparr>"

definition silence_env :: env where
  "silence_env = example_env\<lparr>model_transcribe := (\<lambda>audio. Inr ['' '', []])\<rparr>"

text \<open>A processor with an API key.\<close>

definition example_processor :: Processor where
  "example_processor = Processor_init (default_Config\<lparr>anthropic_api_key := ''sk-1''\<rparr>)"

text \<open>The example application while it records, and a run of key events and one
  chunk of two mono frames.\<close>

definition recording_app :: App where
  "recording_app =
     example_app\<lparr>self_recording := True, recorder := Recorder_start (recorder example_app)\<rparr>"

definition example_events :: "event list" where
  "example_events =
     [Press (Key ''ctrl_r''), Press (Key ''ctrl_l''), Callback (Arr2 1 [[0.5], [0.25]]) False,
      Release (KeyCode ''a''), Press (KeyCode ''a''), Press OtherKey, Release (Key ''ctrl_l''),
      Release (Key ''ctrl_r''), Press (Key ''ctrl_l''), Release (Key ''ctrl_r'')]"

text \<open>The world in which the client of the API cannot be built, and the example
  application with an API key in its configuration.\<close>

definition client_fails_env :: env where
  "client_fails_env = example_env\<lparr>new_Anthropic := (\<lambda>k. Some (LibraryError ''TypeError''))\<rparr>"

definition keyed_app :: App where
  "keyed_app =
     example_app\<lparr>cfg := default_Config\<lparr>anthropic_api_key := ''sk-1''\<rparr>,
                  processor := Some example_processor\<rparr>"


subsection \<open>Rounding to float32\<close>

text \<open>The binary exponent of a real other than 0: the integer \<open>e\<close> with
  \<open>2 ^ e \<le> \<bar>x\<bar> < 2 ^ (e + 1)\<close>, computed from the integer part of \<open>\<bar>x\<bar>\<close> or of its
  inverse.\<close>

definition exponent2 :: "real \<Rightarrow> int" where
  "exponent2 x =
     (if 1 \<le> \<bar>x\<bar> then int (floorlog 2 (nat \<lfloor>\<bar>x\<bar>\<rfloor>)) - 1
      else - int (floorlog 2 (nat \<lceil>1 / \<bar>x\<bar>\<rceil> - 1)))"

text \<open>The nearest integer, the even one of two that are equally near.\<close>

definition round_half_even :: "real \<Rightarrow> int" where
  "round_half_even x =
     (let f = \<lfloor>x\<rfloor>; d = x - of_int f
      in if d < 1 / 2 then f else if 1 / 2 < d then f + 1 else if even f then f else f + 1)"

text \<open>The nearest \<^verbatim>\<open>float32\<close> (IEEE 754 binary32, round to nearest, ties to even)
  of a real of magnitude below \<open>2 ^ 128\<close>: a multiple of \<open>2 ^ (e - 23)\<close>, where
  \<open>e\<close> is the exponent of the real and at least \<open>- 126\<close>.\<close>

definition float32 :: "real \<Rightarrow> real" where
  "float32 x =
     (if x = 0 then 0
      else (let q = power_int 2 (max (exponent2 x) (- 126) - 23)
            in of_int (round_half_even (x / q)) * q))"

section \<open>Properties\<close>

subsection \<open>Resolving the hotkey\<close>

text \<open>The names of the table are in lower case, which is why looking up the
  lower-cased string finds a name whatever its case.\<close>

lemma lower_special_key_names: "list_all (\<lambda>n. lower n = n) special_key_names"
  by (simp add: special_key_names_def SPECIAL_KEYS_def lower_def lower_char_def)

lemma map_of_SPECIAL_KEYS_iff:
  "(\<exists>k. map_of SPECIAL_KEYS s = Some k) \<longleftrightarrow> s \<in> set special_key_names"
proof -
  have "map_of SPECIAL_KEYS s \<noteq> None \<longleftrightarrow> s \<in> fst ` set SPECIAL_KEYS"
    by (simp add: map_of_eq_None_iff)
  then show ?thesis
    by (simp add: special_key_names_def)
qed

lemma names_special_key_iff:
  "names_special_key name \<longleftrightarrow> lower name \<in> set special_key_names"
proof -
  have "\<forall>n \<in> set special_key_names. lower n = n"
    using lower_special_key_names by (simp add: list_all_iff)
  then show ?thesis
    by (auto simp: names_special_key_def list_ex_iff)
qed

lemma resolve_hotkey_Inr_iff:
  "(\<exists>k. resolve_hotkey name = Inr k) \<longleftrightarrow> names_special_key name \<or> length name = 1"
proof -
  have "(\<exists>k. resolve_hotkey name = Inr k) \<longleftrightarrow>
        (\<exists>k. map_of SPECIAL_KEYS (lower name) = Some k) \<or> length name = 1"
    by (auto simp: resolve_hotkey_def split: option.splits)
  then show ?thesis
    by (simp add: map_of_SPECIAL_KEYS_iff names_special_key_iff)
qed

lemma resolve_hotkey_Inl:
  "\<not> (names_special_key name \<or> length name = 1) \<Longrightarrow> resolve_hotkey name = Inl (ValueError name)"
proof -
  assume a: "\<not> (names_special_key name \<or> length name = 1)"
  then have "map_of SPECIAL_KEYS (lower name) = None"
    using map_of_SPECIAL_KEYS_iff [of "lower name"] names_special_key_iff [of name]
    by (cases "map_of SPECIAL_KEYS (lower name)") auto
  with a show ?thesis
    by (simp add: resolve_hotkey_def)
qed

text \<open>
  Claim C8. For every hotkey string, \<^verbatim>\<open>_resolve_hotkey\<close> returns a key exactly when
  the string names a special key (without regard to case) or has length one. For every
  other string it raises \<^verbatim>\<open>ValueError\<close>; the exception leaves
  \<^verbatim>\<open>App.__init__\<close>, so \<^verbatim>\<open>main\<close> ends with it before it prints anything,
  starts a thread or handles one of the events \<open>evs\<close>.
\<close>

theorem hotkey_resolution:
  "((\<exists>k. resolve_hotkey name = Inr k) \<longleftrightarrow> names_special_key name \<or> length name = 1)
   \<and> (\<not> (names_special_key name \<or> length name = 1) \<longrightarrow>
        resolve_hotkey name = Inl (ValueError name)
        \<and> App_init (c\<lparr>hotkey := name\<rparr>) = Inl (ValueError name)
        \<and> main env (c\<lparr>hotkey := name\<rparr>) evs = ([], Some (ValueError name)))"
proof -
  have "App_init (c\<lparr>hotkey := name\<rparr>) = Inl (ValueError name)
        \<and> main env (c\<lparr>hotkey := name\<rparr>) evs = ([], Some (ValueError name))"
    if "resolve_hotkey name = Inl (ValueError name)"
    using that by (simp add: App_init_def main_def)
  then show ?thesis
    using resolve_hotkey_Inr_iff [of name] resolve_hotkey_Inl [of name] by blast
qed

theorem hotkey_resolution_witness:
  "(\<exists>k. resolve_hotkey ''Shift'' = Inr k) \<and> names_special_key ''Shift''
   \<and> (\<exists>k. resolve_hotkey ''Z'' = Inr k) \<and> \<not> names_special_key ''Z''
   \<and> \<not> (names_special_key ''ctrl+a'' \<or> length ''ctrl+a'' = 1)
   \<and> resolve_hotkey ''ctrl+a'' = Inl (ValueError ''ctrl+a'')
   \<and> main example_env (default_Config\<lparr>hotkey := ''ctrl+a''\<rparr>) [Press (Key ''ctrl_l'')]
       = ([], Some (ValueError ''ctrl+a''))"
proof -
  have s: "names_special_key ''Shift''"
    by code_simp
  have z: "\<not> names_special_key ''Z''"
    by code_simp
  have n: "\<not> (names_special_key ''ctrl+a'' \<or> length ''ctrl+a'' = 1)"
    by code_simp
  show ?thesis
    using s z n
      hotkey_resolution [of "''Shift''"]
      hotkey_resolution [of "''Z''"]
      hotkey_resolution [of "''ctrl+a''" default_Config example_env "[Press (Key ''ctrl_l'')]"]
    by simp
qed

subsection \<open>Left and right modifier keys\<close>

lemma resolve_modifier:
  "(n, b) \<in> set modifier_keys \<Longrightarrow> lower name = n \<Longrightarrow> resolve_hotkey name = Inr (Key (b @ ''_l''))"
  by (auto simp: modifier_keys_def resolve_hotkey_def SPECIAL_KEYS_def)

lemma key_matches_modifier:
  "(n, b) \<in> set modifier_keys \<Longrightarrow>
     key_matches (Key (b @ ''_l'')) (Key (b @ ''_l'')) \<and> key_matches (Key (b @ ''_l'')) (Key (b @ ''_r''))"
  by (auto simp: modifier_keys_def rstrip_def)

text \<open>The match does not depend on whether the hotkey or the key carries the plain
  name of the modifier or the name of one of its sides: \<^verbatim>\<open>rstrip("_lr")\<close> gives the
  same for all of them.\<close>

lemma key_matches_modifier_names:
  assumes "(n, b) \<in> set modifier_keys"
    and "x \<in> {b, b @ ''_l'', b @ ''_r''}" and "y \<in> {b, b @ ''_l'', b @ ''_r''}"
  shows "key_matches (Key x) (Key y)"
  using assms by (auto simp: modifier_keys_def rstrip_def)

text \<open>
  Claim C7. When the hotkey of the configuration is the name of a modifier key (in any
  case), the resolved hotkey matches the left and the right key of that modifier, and
  \<^verbatim>\<open>_on_press\<close> and \<^verbatim>\<open>_on_release\<close> do the same for the left key as for
  the right key, in every state of the application.
\<close>

theorem modifier_hotkey_matches_left_and_right:
  assumes "(n, b) \<in> set modifier_keys" and "lower name = n"
  shows "\<exists>h. resolve_hotkey name = Inr h
           \<and> key_matches h (Key (b @ ''_l'')) \<and> key_matches h (Key (b @ ''_r''))
           \<and> (\<forall>app. self_hotkey app = h \<longrightarrow>
                 App_on_press app (Key (b @ ''_l'')) = App_on_press app (Key (b @ ''_r''))
                 \<and> App_on_release app (Key (b @ ''_l'')) = App_on_release app (Key (b @ ''_r'')))"
proof -
  have r: "resolve_hotkey name = Inr (Key (b @ ''_l''))"
    using assms by (rule resolve_modifier)
  have m: "key_matches (Key (b @ ''_l'')) (Key (b @ ''_l''))"
          "key_matches (Key (b @ ''_l'')) (Key (b @ ''_r''))"
    using key_matches_modifier [OF assms(1)] by simp_all
  have "App_on_press app (Key (b @ ''_l'')) = App_on_press app (Key (b @ ''_r''))
        \<and> App_on_release app (Key (b @ ''_l'')) = App_on_release app (Key (b @ ''_r''))"
    if "self_hotkey app = Key (b @ ''_l'')" for app
    using that m by (simp add: App_on_press_def App_on_release_def)
  with r m show ?thesis by blast
qed

theorem modifier_hotkey_matches_left_and_right_witness:
  "(''ctrl'', ''ctrl'') \<in> set modifier_keys \<and> lower ''Ctrl'' = ''ctrl''
   \<and> (\<exists>h. resolve_hotkey ''Ctrl'' = Inr h
          \<and> key_matches h (Key ''ctrl_l'') \<and> key_matches h (Key ''ctrl_r''))"
proof -
  have "(''ctrl'', ''ctrl'') \<in> set modifier_keys"
    by (simp add: modifier_keys_def)
  moreover have "lower ''Ctrl'' = ''ctrl''"
    by code_simp
  ultimately show ?thesis
    using modifier_hotkey_matches_left_and_right [of "''ctrl''" "''ctrl''" "''Ctrl''"]
    by auto
qed

subsection \<open>Blank texts and stripping\<close>

lemma dropWhile_all_Nil:
  "(\<forall>x \<in> set (dropWhile P xs). P x) \<Longrightarrow> dropWhile P xs = []"
proof (rule ccontr)
  assume a: "\<forall>x \<in> set (dropWhile P xs). P x" and n: "dropWhile P xs \<noteq> []"
  from n have "\<not> P (hd (dropWhile P xs))" by (rule hd_dropWhile)
  moreover from n have "hd (dropWhile P xs) \<in> set (dropWhile P xs)" by simp
  ultimately show False using a by blast
qed

text \<open>Stripping leaves nothing exactly of a blank text.\<close>

lemma strip_Nil_iff: "strip s = [] \<longleftrightarrow> blank s"
proof
  assume "strip s = []"
  then have "\<forall>x \<in> set (dropWhile is_space s). is_space x"
    by (simp add: strip_def dropWhile_eq_Nil_conv)
  then have "dropWhile is_space s = []" by (rule dropWhile_all_Nil)
  then show "blank s"
    by (simp add: blank_def dropWhile_eq_Nil_conv list_all_iff)
next
  assume "blank s"
  then have "dropWhile is_space s = []"
    by (simp add: blank_def dropWhile_eq_Nil_conv list_all_iff)
  then show "strip s = []" by (simp only: strip_def rev.simps dropWhile.simps)
qed

text \<open>A stripped text that is blank is empty.\<close>

lemma blank_strip: "blank (strip s) \<Longrightarrow> strip s = []"
proof -
  assume "blank (strip s)"
  then have "\<forall>x \<in> set (dropWhile is_space (rev (dropWhile is_space s))). is_space x"
    unfolding blank_def strip_def list_all_iff set_rev .
  then have "dropWhile is_space (rev (dropWhile is_space s)) = []"
    by (rule dropWhile_all_Nil)
  then show ?thesis
    unfolding strip_def by (simp only: rev.simps)
qed

lemma blank_Nil: "blank []"
  by (simp add: blank_def)

subsection \<open>Transcribing an empty array\<close>

text \<open>
  Claim C9. \<^verbatim>\<open>transcribe\<close> of an array of size 0 returns the empty string, leaves
  the transcriber as it was (the model is not loaded) and does nothing else. So the
  warm-up thread of \<^verbatim>\<open>App.run\<close>, which passes the empty array, leaves the
  application as it was: after \<^verbatim>\<open>App.__init__\<close> and \<^verbatim>\<open>App.run\<close> without
  events the model is still not loaded.
\<close>

theorem transcribe_empty_array:
  "(size_nd audio = 0 \<longrightarrow> Transcriber_transcribe env t audio = (t, [], Inr []))
   \<and> thread_warmup env app = (app, [])
   \<and> (App_init c = Inr app \<longrightarrow>
        App_run env app [] = (app, [Print (Ready (hotkey c)), SpawnWarmup], None)
        \<and> self_model (transcriber app) = None)"
proof -
  have t: "Transcriber_transcribe env t audio = (t, [], Inr [])" if "size_nd audio = 0" for t audio
    using that by (simp add: Transcriber_transcribe_def)
  have w: "thread_warmup env app = (app, [])" for app
    by (simp add: thread_warmup_def t)
  have "App_run env app [] = (app, [Print (Ready (hotkey c)), SpawnWarmup], None)
        \<and> self_model (transcriber app) = None" if "App_init c = Inr app"
  proof -
    from that have "cfg app = c" and "self_model (transcriber app) = None"
      by (auto simp: App_init_def Transcriber_init_def split: sum.splits)
    then show ?thesis by (simp add: App_run_def w)
  qed
  with t w show ?thesis by blast
qed

theorem transcribe_empty_array_witness:
  "size_nd (Arr2 2 []) = 0
   \<and> Transcriber_transcribe example_env (transcriber example_app) (Arr2 2 [])
       = (transcriber example_app, [], Inr [])
   \<and> App_init default_Config = Inr example_app
   \<and> App_run example_env example_app []
       = (example_app, [Print (Ready ''ctrl''), SpawnWarmup], None)
   \<and> self_model (transcriber example_app) = None"
proof -
  have i: "App_init default_Config = Inr example_app"
    by (simp add: App_init_def example_app_def default_Config_def resolve_hotkey_def
        SPECIAL_KEYS_def lower_def lower_char_def)
  have h: "hotkey default_Config = ''ctrl''"
    by (simp add: default_Config_def)
  show ?thesis
    using i h
      transcribe_empty_array [of "Arr2 2 []" example_env "transcriber example_app" example_app default_Config]
    by simp
qed

subsection \<open>The cleanup of a text\<close>

text \<open>
  Claim C10. \<^verbatim>\<open>cleanup\<close> of a blank text (empty, or whitespace only) returns the
  text as it is, leaves the processor as it was (no client is built) and does nothing
  else (no request is sent), whatever the API key of the configuration is.
\<close>

theorem cleanup_blank_text:
  "blank raw_text \<Longrightarrow> Processor_cleanup env p raw_text = (p, [], Inr raw_text)"
  by (simp add: Processor_cleanup_def strip_Nil_iff)

theorem cleanup_blank_text_witness:
  "blank '' '' \<and> anthropic_api_key (self_cfg example_processor) \<noteq> []
   \<and> Processor_cleanup example_env example_processor '' ''
       = (example_processor, [], Inr '' '')
   \<and> Processor_cleanup example_env (Processor_init default_Config) []
       = (Processor_init default_Config, [], Inr [])"
proof -
  have b: "blank '' ''"
    by (simp add: blank_def is_space_def)
  show ?thesis
    using b blank_Nil
      cleanup_blank_text [of "'' ''" example_env example_processor]
      cleanup_blank_text [of "[]" example_env "Processor_init default_Config"]
    by (simp add: example_processor_def Processor_init_def)
qed

lemma ensure_client_available:
  "client_available env p \<Longrightarrow>
     \<exists>p1 fx. ensure_client env p = (p1, fx, None) \<and> self_cfg p1 = self_cfg p"
proof (cases "self_client p = None")
  case True
  assume "client_available env p"
  with True have "new_Anthropic env (anthropic_api_key (self_cfg p)) = None"
    by (simp add: client_available_def)
  with True show ?thesis by (simp add: ensure_client_def Let_def)
next
  case False
  then show ?thesis by (simp add: ensure_client_def)
qed

text \<open>Where the fallback to the raw text works. For a text that is not blank: when
  no API key is configured, or when the client is available and the request fails (the
  API raises any exception, or the response has no text to return), \<^verbatim>\<open>cleanup\<close>
  returns the raw text itself, which is not empty, and raises nothing.\<close>

lemma cleanup_falls_back_to_raw:
  assumes "\<not> blank raw_text"
    and "anthropic_api_key (self_cfg p) = [] \<or> (client_available env p \<and> request_fails env p raw_text)"
  shows "\<exists>p1 fx. Processor_cleanup env p raw_text = (p1, fx, Inr raw_text) \<and> raw_text \<noteq> []"
proof -
  from assms(1) have s: "strip raw_text \<noteq> []" by (simp add: strip_Nil_iff)
  from assms(1) have n: "raw_text \<noteq> []" using blank_Nil by auto
  show ?thesis
  proof (cases "anthropic_api_key (self_cfg p) = []")
    case True
    with s n show ?thesis by (simp add: Processor_cleanup_def)
  next
    case False
    with assms(2) have c: "client_available env p" and f: "request_fails env p raw_text"
      by simp_all
    from c obtain p1 fx where e: "ensure_client env p = (p1, fx, None)" and k: "self_cfg p1 = self_cfg p"
      using ensure_client_available by blast
    from False k have k1: "anthropic_api_key (self_cfg p1) \<noteq> []" by simp
    from f k have f1: "request_fails env p1 raw_text" by (simp add: request_fails_def)
    have "\<exists>fx1. Processor_cleanup env p raw_text = (p1, fx1, Inr raw_text)"
    proof (cases "messages_create env (claude_model (self_cfg p1)) raw_text")
      case (Inl err)
      with s False e show ?thesis by (simp add: Processor_cleanup_def)
    next
      case (Inr content)
      show ?thesis
      proof (cases content)
        case Nil
        with Inr s False e show ?thesis by (simp add: Processor_cleanup_def)
      next
        case (Cons b blocks)
        with Inr f1 have "b = None"
          by (cases b) (simp_all add: request_fails_def)
        with Cons Inr s False e show ?thesis by (simp add: Processor_cleanup_def)
      qed
    qed
    with n show ?thesis by blast
  qed
qed

lemma cleanup_falls_back_to_raw_example:
  "\<not> blank ''um hello''
   \<and> client_available request_fails_env example_processor
   \<and> request_fails request_fails_env example_processor ''um hello''
   \<and> (\<exists>p1 fx. Processor_cleanup request_fails_env example_processor ''um hello''
                  = (p1, fx, Inr ''um hello''))
   \<and> anthropic_api_key (self_cfg (Processor_init default_Config)) = []
   \<and> (\<exists>p1 fx. Processor_cleanup example_env (Processor_init default_Config) ''um hello''
                  = (p1, fx, Inr ''um hello''))"
proof -
  have b: "\<not> blank ''um hello''"
    by (simp add: blank_def is_space_def)
  have c: "client_available request_fails_env example_processor"
    by (simp add: client_available_def request_fails_env_def example_env_def)
  have f: "request_fails request_fails_env example_processor ''um hello''"
    by (simp add: request_fails_def request_fails_env_def)
  have k: "anthropic_api_key (self_cfg (Processor_init default_Config)) = []"
    by (simp add: Processor_init_def default_Config_def)
  show ?thesis
    using b c f k
      cleanup_falls_back_to_raw [of "''um hello''" example_processor request_fails_env]
      cleanup_falls_back_to_raw [of "''um hello''" "Processor_init default_Config" example_env]
    by simp
qed

text \<open>Where it does not work. The client is built outside the \<^verbatim>\<open>try\<close>: when
  it is not there and its construction raises, no request is made and the exception
  leaves \<^verbatim>\<open>cleanup\<close>.\<close>

lemma cleanup_client_construction_raises:
  assumes "\<not> blank raw_text" and "anthropic_api_key (self_cfg p) \<noteq> []"
    and "self_client p = None" and "new_Anthropic env (anthropic_api_key (self_cfg p)) = Some e"
  shows "Processor_cleanup env p raw_text = (p, [NewAnthropic (anthropic_api_key (self_cfg p))], Inl e)"
proof -
  from assms(1) have "strip raw_text \<noteq> []" by (simp add: strip_Nil_iff)
  moreover from assms(3,4)
  have "ensure_client env p = (p, [NewAnthropic (anthropic_api_key (self_cfg p))], Some e)"
    by (simp add: ensure_client_def)
  ultimately show ?thesis
    using assms(2) by (simp add: Processor_cleanup_def)
qed

text \<open>
  Claim C3. For every text that is not blank, \<^verbatim>\<open>cleanup\<close> returns the raw text
  itself, never an empty text and never an error, when the cleanup collaborator raises
  any exception or when no API key is configured. The code does so when no key is
  configured and when the request fails (\<open>cleanup_falls_back_to_raw\<close>). It does not
  when the collaborator raises while the client is built: \<^verbatim>\<open>_ensure_client\<close> is
  called before the \<^verbatim>\<open>try\<close> whose handler returns the raw text. With the API
  key \<^verbatim>\<open>sk-1\<close>, no client yet, a constructor that raises and the text
  \<^verbatim>\<open>um hello\<close>, \<^verbatim>\<open>cleanup\<close> ends with the exception of the constructor; and
  the run of \<^verbatim>\<open>App._process\<close> of the application built from that configuration
  ends with it after the cleanup was invoked: its thread reports the traceback, and the
  insertion is not invoked.
\<close>

theorem cleanup_raises_when_client_construction_raises:
  "\<not> blank ''um hello''
   \<and> anthropic_api_key (self_cfg example_processor) = ''sk-1''
   \<and> new_Anthropic client_fails_env ''sk-1'' = Some (LibraryError ''TypeError'')
   \<and> Processor_cleanup client_fails_env example_processor ''um hello''
       = (example_processor, [NewAnthropic ''sk-1''], Inl (LibraryError ''TypeError''))
   \<and> App_init (default_Config\<lparr>anthropic_api_key := ''sk-1''\<rparr>) = Inr keyed_app
   \<and> thread_process client_fails_env keyed_app (Arr1 [0.5, 0.25])
       = (keyed_app\<lparr>transcriber :=
            (transcriber keyed_app)\<lparr>self_model := Some (WhisperModel ''small.en'' ''cpu'' ''int8'')\<rparr>\<rparr>,
          [Invoke Transcription, Print (LoadingModel ''small.en'' ''cpu'' ''int8''),
           NewWhisperModel ''small.en'' ''cpu'' ''int8'', Print ModelLoaded,
           ModelTranscribe (Arr1 [0.5, 0.25]), Print (Raw ''um hello world''),
           Invoke Cleanup, NewAnthropic ''sk-1'', Traceback (LibraryError ''TypeError'')])"
proof -
  have b: "\<not> blank ''um hello''"
    by (simp add: blank_def is_space_def)
  have k: "anthropic_api_key (self_cfg example_processor) = ''sk-1''"
    by (simp add: example_processor_def Processor_init_def)
  have n: "new_Anthropic client_fails_env ''sk-1'' = Some (LibraryError ''TypeError'')"
    by (simp add: client_fails_env_def)
  have c: "Processor_cleanup client_fails_env example_processor ''um hello''
       = (example_processor, [NewAnthropic ''sk-1''], Inl (LibraryError ''TypeError''))"
    by code_simp
  have i: "App_init (default_Config\<lparr>anthropic_api_key := ''sk-1''\<rparr>) = Inr keyed_app"
    by code_simp
  have t: "thread_process client_fails_env keyed_app (Arr1 [0.5, 0.25])
       = (keyed_app\<lparr>transcriber :=
            (transcriber keyed_app)\<lparr>self_model := Some (WhisperModel ''small.en'' ''cpu'' ''int8'')\<rparr>\<rparr>,
          [Invoke Transcription, Print (LoadingModel ''small.en'' ''cpu'' ''int8''),
           NewWhisperModel ''small.en'' ''cpu'' ''int8'', Print ModelLoaded,
           ModelTranscribe (Arr1 [0.5, 0.25]), Print (Raw ''um hello world''),
           Invoke Cleanup, NewAnthropic ''sk-1'', Traceback (LibraryError ''TypeError'')])"
    by code_simp
  from b k n c i t show ?thesis by simp
qed

subsection \<open>A pipeline run\<close>

text \<open>The transcription does nothing that belongs to the cleanup or to the
  insertion.\<close>

lemma load_model_effects:
  "load_model env t = (t1, fx, r) \<Longrightarrow> \<not> list_ex of_cleanup fx \<and> \<not> list_ex of_insertion fx"
  by (auto simp: load_model_def Let_def split: option.splits)

lemma transcribe_effects:
  assumes "Transcriber_transcribe env t audio = (t1, fx, r)"
  shows "\<not> list_ex of_cleanup fx \<and> \<not> list_ex of_insertion fx"
proof (cases "size_nd audio = 0")
  case True
  with assms show ?thesis by (simp add: Transcriber_transcribe_def)
next
  case False
  obtain t2 fx2 r2 where l: "(if self_model t = None then load_model env t else (t, [], None)) = (t2, fx2, r2)"
    by (metis prod_cases3)
  then have c: "\<not> list_ex of_cleanup fx2 \<and> \<not> list_ex of_insertion fx2"
    using load_model_effects by (auto split: if_splits)
  from assms False l have "fx = fx2 \<or> fx = fx2 @ [ModelTranscribe audio]"
    by (auto simp: Transcriber_transcribe_def split: option.splits sum.splits)
  with c show ?thesis by auto
qed

lemma transcribe_blank:
  assumes "Transcriber_transcribe env t audio = (t1, fx, Inr raw_text)" and "blank raw_text"
  shows "raw_text = []"
proof (cases "size_nd audio = 0")
  case True
  with assms show ?thesis by (simp add: Transcriber_transcribe_def)
next
  case False
  with assms(1) have "\<exists>s. raw_text = strip s"
    by (auto simp: Transcriber_transcribe_def split: prod.splits option.splits sum.splits)
  with assms(2) show ?thesis using blank_strip by auto
qed

text \<open>
  Claim C4. When the transcription of a run returns a blank text, the run prints that no
  speech was detected and ends without an exception: after the effects \<open>fx\<close> of the
  transcription itself nothing else happens, and nothing of the cleanup and nothing of
  the insertion is among the effects of the run (neither stage is invoked, no client
  is built, no request is sent, no subprocess is run).
\<close>

theorem blank_transcription_ends_run:
  assumes "Transcriber_transcribe env (transcriber app) audio = (t1, fx, Inr raw_text)"
    and "blank raw_text"
  shows "App_process env app audio
           = (app\<lparr>transcriber := t1\<rparr>, Invoke Transcription # fx @ [Print NoSpeechDetected], None)
         \<and> thread_process env app audio
           = (app\<lparr>transcriber := t1\<rparr>, Invoke Transcription # fx @ [Print NoSpeechDetected])
         \<and> \<not> list_ex of_cleanup (fst (snd (App_process env app audio)))
         \<and> \<not> list_ex of_insertion (fst (snd (App_process env app audio)))"
proof -
  from assms have e: "raw_text = []" by (rule transcribe_blank)
  with assms(1) have p: "App_process env app audio
      = (app\<lparr>transcriber := t1\<rparr>, Invoke Transcription # fx @ [Print NoSpeechDetected], None)"
    by (simp add: App_process_def)
  then have t: "thread_process env app audio
      = (app\<lparr>transcriber := t1\<rparr>, Invoke Transcription # fx @ [Print NoSpeechDetected])"
    by (simp add: thread_process_def)
  from assms(1) have "\<not> list_ex of_cleanup fx \<and> \<not> list_ex of_insertion fx"
    by (rule transcribe_effects)
  with p t show ?thesis by simp
qed

theorem blank_transcription_ends_run_witness:
  "Transcriber_transcribe silence_env (transcriber example_app) (Arr1 [0.5, 0.25])
     = ((transcriber example_app)\<lparr>self_model := Some (WhisperModel ''small.en'' ''cpu'' ''int8'')\<rparr>,
        [Print (LoadingModel ''small.en'' ''cpu'' ''int8''),
         NewWhisperModel ''small.en'' ''cpu'' ''int8'', Print ModelLoaded,
         ModelTranscribe (Arr1 [0.5, 0.25])],
        Inr [])
   \<and> blank []
   \<and> thread_process silence_env example_app (Arr1 [0.5, 0.25])
     = (example_app\<lparr>transcriber :=
          (transcriber example_app)\<lparr>self_model := Some (WhisperModel ''small.en'' ''cpu'' ''int8'')\<rparr>\<rparr>,
        [Invoke Transcription, Print (LoadingModel ''small.en'' ''cpu'' ''int8''),
         NewWhisperModel ''small.en'' ''cpu'' ''int8'', Print ModelLoaded,
         ModelTranscribe (Arr1 [0.5, 0.25]), Print NoSpeechDetected])"
proof -
  have t: "Transcriber_transcribe silence_env (transcriber example_app) (Arr1 [0.5, 0.25])
     = ((transcriber example_app)\<lparr>self_model := Some (WhisperModel ''small.en'' ''cpu'' ''int8'')\<rparr>,
        [Print (LoadingModel ''small.en'' ''cpu'' ''int8''),
         NewWhisperModel ''small.en'' ''cpu'' ''int8'', Print ModelLoaded,
         ModelTranscribe (Arr1 [0.5, 0.25])],
        Inr [])"
    by (simp add: Transcriber_transcribe_def load_model_def silence_env_def example_env_def
        example_app_def Transcriber_init_def default_Config_def strip_def is_space_def Let_def)
  have b: "blank []"
    by (rule blank_Nil)
  show ?thesis
    using t b blank_transcription_ends_run [OF t b]
    by simp
qed

text \<open>\<^verbatim>\<open>App._process\<close> is the run up to the insertion, followed by the
  insertion.\<close>

lemma App_process_split:
  "App_process env app audio =
     (case stages_before_insertion env app audio of
        (app2, fx, Inl r) \<Rightarrow> (app2, fx, r)
      | (app2, fx, Inr final_text) \<Rightarrow>
          (case insert_text env final_text of
             (ins, Some e) \<Rightarrow> (app2, fx @ Invoke Insertion # ins, Some e)
           | (ins, None) \<Rightarrow> (app2, fx @ Invoke Insertion # ins @ [Print Done], None)))"
  unfolding App_process_def stages_before_insertion_def Let_def
  by (simp split: prod.splits sum.splits option.splits)

lemma ensure_client_effects:
  "ensure_client env p = (p1, fx, r) \<Longrightarrow> \<not> list_ex of_insertion fx"
  by (auto simp: ensure_client_def Let_def split: if_splits option.splits)

lemma cleanup_effects:
  assumes "Processor_cleanup env p raw_text = (p1, fx, r)"
  shows "\<not> list_ex of_insertion fx"
proof (cases "strip raw_text = [] \<or> anthropic_api_key (self_cfg p) = []")
  case True
  with assms show ?thesis by (auto simp: Processor_cleanup_def split: if_splits)
next
  case False
  obtain p2 fx2 r2 where e: "ensure_client env p = (p2, fx2, r2)"
    by (metis prod_cases3)
  then have c: "\<not> list_ex of_insertion fx2" by (rule ensure_client_effects)
  from assms False e have "fx = fx2 \<or> (\<exists>l. fx = fx2 @ [MessagesCreate (claude_model (self_cfg p2)) raw_text] @ l \<and> \<not> list_ex of_insertion l)"
    by (auto simp: Processor_cleanup_def Let_def split: option.splits sum.splits list.splits)
  with c show ?thesis by auto
qed

lemma stages_before_insertion_effects:
  assumes "stages_before_insertion env app audio = (app1, fx, r)"
  shows "\<not> list_ex of_insertion fx"
proof -
  obtain t1 fx_stt res where t: "Transcriber_transcribe env (transcriber app) audio = (t1, fx_stt, res)"
    by (metis prod_cases3)
  then have a: "\<not> list_ex of_insertion fx_stt" using transcribe_effects by blast
  show ?thesis
  proof (cases "processor app")
    case None
    with assms t a show ?thesis
      by (auto simp: stages_before_insertion_def Let_def split: sum.splits if_splits)
  next
    case (Some p)
    show ?thesis
    proof (cases res)
      case (Inl e)
      with assms t a show ?thesis
        by (auto simp: stages_before_insertion_def Let_def)
    next
      case (Inr raw_text)
      obtain p1 fx_llm r1 where c: "Processor_cleanup env p raw_text = (p1, fx_llm, r1)"
        by (metis prod_cases3)
      then have b: "\<not> list_ex of_insertion fx_llm" by (rule cleanup_effects)
      from assms t a b c Inr Some show ?thesis
        by (auto simp: stages_before_insertion_def Let_def split: sum.splits if_splits)
    qed
  qed
qed

lemma insertion_succeeds_fields:
  "import_faster_whisper (insertion_succeeds env) = import_faster_whisper env"
  "new_WhisperModel (insertion_succeeds env) = new_WhisperModel env"
  "model_transcribe (insertion_succeeds env) = model_transcribe env"
  "new_Anthropic (insertion_succeeds env) = new_Anthropic env"
  "messages_create (insertion_succeeds env) = messages_create env"
  by (simp_all add: insertion_succeeds_def)

lemma insertion_succeeds_transcribe:
  "Transcriber_transcribe (insertion_succeeds env) t audio = Transcriber_transcribe env t audio"
  unfolding Transcriber_transcribe_def load_model_def insertion_succeeds_fields ..

lemma insertion_succeeds_cleanup:
  "Processor_cleanup (insertion_succeeds env) p raw_text = Processor_cleanup env p raw_text"
  unfolding Processor_cleanup_def ensure_client_def insertion_succeeds_fields ..

lemma insertion_succeeds_stages:
  "stages_before_insertion (insertion_succeeds env) app audio = stages_before_insertion env app audio"
  unfolding stages_before_insertion_def insertion_succeeds_transcribe insertion_succeeds_cleanup ..

lemma insertion_succeeds_insert_text:
  "\<exists>ins. insert_text (insertion_succeeds env) text = (ins, None)"
  by (simp add: insert_text_def insert_macos_def insert_linux_def insertion_succeeds_def Let_def)

lemma stages_before_insertion_frame:
  assumes "stages_before_insertion env app audio = (app1, fx, r)"
  shows "cfg app1 = cfg app \<and> recorder app1 = recorder app
         \<and> self_recording app1 = self_recording app \<and> self_hotkey app1 = self_hotkey app"
proof -
  obtain t1 fx_stt res where t: "Transcriber_transcribe env (transcriber app) audio = (t1, fx_stt, res)"
    by (metis prod_cases3)
  show ?thesis
  proof (cases res)
    case (Inl e)
    with assms t show ?thesis
      by (auto simp: stages_before_insertion_def Let_def)
  next
    case (Inr raw_text)
    show ?thesis
    proof (cases "processor app")
      case None
      with assms t Inr show ?thesis
        by (auto simp: stages_before_insertion_def Let_def split: if_splits)
    next
      case (Some p)
      obtain p1 fx_llm r1 where c: "Processor_cleanup env p raw_text = (p1, fx_llm, r1)"
        by (metis prod_cases3)
      with assms t Inr Some show ?thesis
        by (auto simp: stages_before_insertion_def Let_def split: if_splits sum.splits)
    qed
  qed
qed

text \<open>
  Claim C2. Take a run of \<^verbatim>\<open>App._process\<close> that has invoked the insertion and has
  ended with the exception \<open>e\<close>. Then the exception was raised by
  \<^verbatim>\<open>insert_text\<close>. The thread of the run reports the exception by its traceback
  and ends; no exception reaches another thread. Everything before the insertion was
  done as in a run whose insertion succeeds: the effects before the insertion are the
  same, and the application is left in the same state, from which later runs start;
  a successful insertion would have added the line that the text was inserted. The
  configuration, the recorder, the recording flag and the hotkey are as before the
  run.
\<close>

theorem insertion_failure_is_reported:
  assumes "App_process env app audio = (app1, fx, Some e)" and "Invoke Insertion \<in> set fx"
  shows "thread_process env app audio = (app1, fx @ [Traceback e])
         \<and> (\<exists>pre final_text ins ins'.
               fx = pre @ Invoke Insertion # ins
               \<and> insert_text env final_text = (ins, Some e)
               \<and> App_process (insertion_succeeds env) app audio
                   = (app1, pre @ Invoke Insertion # ins' @ [Print Done], None))
         \<and> cfg app1 = cfg app \<and> recorder app1 = recorder app
         \<and> self_recording app1 = self_recording app \<and> self_hotkey app1 = self_hotkey app"
proof -
  obtain app2 pre r where s: "stages_before_insertion env app audio = (app2, pre, r)"
    by (metis prod_cases3)
  then have n: "\<not> list_ex of_insertion pre" by (rule stages_before_insertion_effects)
  then have ni: "Invoke Insertion \<notin> set pre" by (auto simp: list_ex_iff)
  from s have fr: "cfg app2 = cfg app \<and> recorder app2 = recorder app
         \<and> self_recording app2 = self_recording app \<and> self_hotkey app2 = self_hotkey app"
    by (rule stages_before_insertion_frame)
  have "\<exists>final_text. r = Inr final_text"
  proof (cases r)
    case (Inl x)
    with assms(1) s have "fx = pre" by (simp add: App_process_split)
    with assms(2) ni show ?thesis by simp
  next
    case (Inr final_text)
    then show ?thesis by simp
  qed
  then obtain final_text where r: "r = Inr final_text" by blast
  obtain ins ri where i: "insert_text env final_text = (ins, ri)" by (metis prod.exhaust)
  from assms(1) s r i have a: "app1 = app2" and f: "fx = pre @ Invoke Insertion # ins"
    and re: "ri = Some e"
    by (auto simp: App_process_split split: option.splits)
  obtain ins' where i': "insert_text (insertion_succeeds env) final_text = (ins', None)"
    using insertion_succeeds_insert_text by blast
  from s r i' a have "App_process (insertion_succeeds env) app audio
      = (app1, pre @ Invoke Insertion # ins' @ [Print Done], None)"
    by (simp add: App_process_split insertion_succeeds_stages)
  moreover from assms(1) have "thread_process env app audio = (app1, fx @ [Traceback e])"
    by (simp add: thread_process_def)
  ultimately show ?thesis using f fr a i re by blast
qed

theorem insertion_failure_is_reported_witness:
  "App_process paste_fails_env example_app (Arr1 [0.5, 0.25])
     = (example_app\<lparr>transcriber :=
          (transcriber example_app)\<lparr>self_model := Some (WhisperModel ''small.en'' ''cpu'' ''int8'')\<rparr>\<rparr>,
        [Invoke Transcription, Print (LoadingModel ''small.en'' ''cpu'' ''int8''),
         NewWhisperModel ''small.en'' ''cpu'' ''int8'', Print ModelLoaded,
         ModelTranscribe (Arr1 [0.5, 0.25]), Print (Raw ''um hello world''),
         Invoke Cleanup, Print NoApiKey, Invoke Insertion,
         SubprocessRun [''xclip'', ''-selection'', ''clipboard''] ''um hello world'',
         SubprocessRun [''xdotool'', ''key'', ''ctrl+v''] []],
        Some (LibraryError ''CalledProcessError''))
   \<and> thread_process paste_fails_env example_app (Arr1 [0.5, 0.25])
     = (example_app\<lparr>transcriber :=
          (transcriber example_app)\<lparr>self_model := Some (WhisperModel ''small.en'' ''cpu'' ''int8'')\<rparr>\<rparr>,
        [Invoke Transcription, Print (LoadingModel ''small.en'' ''cpu'' ''int8''),
         NewWhisperModel ''small.en'' ''cpu'' ''int8'', Print ModelLoaded,
         ModelTranscribe (Arr1 [0.5, 0.25]), Print (Raw ''um hello world''),
         Invoke Cleanup, Print NoApiKey, Invoke Insertion,
         SubprocessRun [''xclip'', ''-selection'', ''clipboard''] ''um hello world'',
         SubprocessRun [''xdotool'', ''key'', ''ctrl+v''] [],
         Traceback (LibraryError ''CalledProcessError'')])"
proof -
  have p: "App_process paste_fails_env example_app (Arr1 [0.5, 0.25])
     = (example_app\<lparr>transcriber :=
          (transcriber example_app)\<lparr>self_model := Some (WhisperModel ''small.en'' ''cpu'' ''int8'')\<rparr>\<rparr>,
        [Invoke Transcription, Print (LoadingModel ''small.en'' ''cpu'' ''int8''),
         NewWhisperModel ''small.en'' ''cpu'' ''int8'', Print ModelLoaded,
         ModelTranscribe (Arr1 [0.5, 0.25]), Print (Raw ''um hello world''),
         Invoke Cleanup, Print NoApiKey, Invoke Insertion,
         SubprocessRun [''xclip'', ''-selection'', ''clipboard''] ''um hello world'',
         SubprocessRun [''xdotool'', ''key'', ''ctrl+v''] []],
        Some (LibraryError ''CalledProcessError''))"
    by code_simp
  show ?thesis
    using p insertion_failure_is_reported [OF p]
    by simp
qed

subsection \<open>Stopping the recorder\<close>

text \<open>\<^verbatim>\<open>np.concatenate\<close> of chunks of one shape joins their rows in the order
  of the chunks.\<close>

lemma concatenate_Arr2:
  "concatenate (Arr2 c rows # map (Arr2 c) rowss) = Inr (Arr2 c (rows @ concat rowss))"
  by (induction rowss arbitrary: rows) simp_all

lemma concatenate_Arr1:
  "concatenate (Arr1 xs # map Arr1 xss) = Inr (Arr1 (xs @ concat xss))"
  by (induction xss arbitrary: xs) simp_all

lemma mean_row_average:
  assumes "\<forall>row \<in> set rows. length row = c"
  shows "map (mean_row c) rows = map average rows"
  using assms by (simp add: mean_row_def average_def)

text \<open>
  Claim C6. When the frames are chunks of \<open>c\<close> channels, at least one chunk and at
  least one channel, \<^verbatim>\<open>stop\<close> closes the stream, clears the frames and returns
  the one-dimensional array that holds, for every frame of every chunk in the order of
  arrival, the average of the samples of its channels. When the frames are chunks of one
  dimension, it returns their concatenation in the order of arrival. For the one chunk
  \<open>[(0.2, 0.4), (0.0, 1.0)]\<close> of two channels it returns \<open>[0.3, 0.5]\<close>. (Samples
  are exact reals here.)
\<close>

theorem stop_concatenates_and_averages:
  "(self_frames r = map (Arr2 c) rowss \<and> rowss \<noteq> [] \<and> 0 < c
      \<and> list_all wf_ndarray (self_frames r) \<longrightarrow>
      Recorder_stop r
        = (r\<lparr>self_frames := [], self_stream := None\<rparr>,
           Inr (Arr1 (map average (concat rowss)))))
   \<and> (self_frames r = map Arr1 xss \<and> xss \<noteq> [] \<longrightarrow>
      Recorder_stop r = (r\<lparr>self_frames := [], self_stream := None\<rparr>, Inr (Arr1 (concat xss))))
   \<and> snd (Recorder_stop (r\<lparr>self_frames := [Arr2 2 [[0.2, 0.4], [0.0, 1.0]]]\<rparr>))
       = Inr (Arr1 [0.3, 0.5])"
proof -
  have a: "Recorder_stop r
        = (r\<lparr>self_frames := [], self_stream := None\<rparr>, Inr (Arr1 (map average (concat rowss))))"
    if f: "self_frames r = map (Arr2 c) rowss" and n: "rowss \<noteq> []"
      and w: "list_all wf_ndarray (self_frames r)"
  proof -
    from n obtain rows rest where rr: "rowss = rows # rest" by (cases rowss) auto
    from f rr have c: "concatenate (self_frames r) = Inr (Arr2 c (concat rowss))"
      by (simp add: concatenate_Arr2)
    from w f have "\<forall>row \<in> set (concat rowss). length row = c"
      by (auto simp: list_all_iff)
    then have "map (mean_row c) (concat rowss) = map average (concat rowss)"
      by (rule mean_row_average)
    with c f n show ?thesis
      by (simp add: Recorder_stop_def)
  qed
  have b: "Recorder_stop r = (r\<lparr>self_frames := [], self_stream := None\<rparr>, Inr (Arr1 (concat xss)))"
    if f: "self_frames r = map Arr1 xss" and n: "xss \<noteq> []"
  proof -
    from n obtain xs rest where rr: "xss = xs # rest" by (cases xss) auto
    from f rr have c: "concatenate (self_frames r) = Inr (Arr1 (concat xss))"
      by (simp add: concatenate_Arr1)
    with f n show ?thesis
      by (simp add: Recorder_stop_def)
  qed
  have e: "snd (Recorder_stop (r\<lparr>self_frames := [Arr2 2 [[0.2, 0.4], [0.0, 1.0]]]\<rparr>))
       = Inr (Arr1 [0.3, 0.5])"
    by (simp add: Recorder_stop_def mean_row_def)
  from a b e show ?thesis by blast
qed

theorem stop_concatenates_and_averages_witness:
  "list_all wf_ndarray [Arr2 2 [[0.2, 0.4]], Arr2 2 [[0.0, 1.0], [-0.5, 0.25]]]
   \<and> Recorder_stop
        ((Recorder_init \<lparr>sample_rate = 16000, channels = 2\<rparr>)
           \<lparr>self_frames := [Arr2 2 [[0.2, 0.4]], Arr2 2 [[0.0, 1.0], [-0.5, 0.25]]],
            self_stream := Some (InputStream 16000 2)\<rparr>)
       = (Recorder_init \<lparr>sample_rate = 16000, channels = 2\<rparr>, Inr (Arr1 [0.3, 0.5, -0.125]))
   \<and> snd (Recorder_stop
        ((Recorder_init \<lparr>sample_rate = 16000, channels = 1\<rparr>)
           \<lparr>self_frames := [Arr1 [0.5, 0.25], Arr1 [1]]\<rparr>))
       = Inr (Arr1 [0.5, 0.25, 1])"
proof -
  have w: "list_all wf_ndarray [Arr2 2 [[0.2, 0.4]], Arr2 2 [[0.0, 1.0], [-0.5, 0.25]]]"
    by simp
  show ?thesis
    using w
      stop_concatenates_and_averages
        [of "(Recorder_init \<lparr>sample_rate = 16000, channels = 2\<rparr>)
               \<lparr>self_frames := [Arr2 2 [[0.2, 0.4]], Arr2 2 [[0.0, 1.0], [-0.5, 0.25]]],
                self_stream := Some (InputStream 16000 2)\<rparr>"
            2 "[[[0.2, 0.4]], [[0.0, 1.0], [-0.5, 0.25]]]" "[]"]
      stop_concatenates_and_averages
        [of "(Recorder_init \<lparr>sample_rate = 16000, channels = 1\<rparr>)
               \<lparr>self_frames := [Arr1 [0.5, 0.25], Arr1 [1]]\<rparr>"
            0 "[]" "[[0.5, 0.25], [1]]"]
    by (simp add: Recorder_init_def average_def)
qed

text \<open>The exponent is the binary exponent, and the rounding is to a nearest
  integer.\<close>

lemma exponent2_bounds:
  assumes "x \<noteq> 0"
  shows "power_int 2 (exponent2 x) \<le> \<bar>x\<bar> \<and> \<bar>x\<bar> < power_int 2 (exponent2 x + 1)"
proof (cases "1 \<le> \<bar>x\<bar>")
  case True
  define n where "n = nat \<lfloor>\<bar>x\<bar>\<rfloor>"
  define k where "k = floorlog 2 n"
  from True have n: "0 < n" by (simp add: n_def)
  then have b: "2 ^ (k - 1) \<le> n \<and> n < 2 ^ k"
    unfolding k_def by (intro floorlog_bounds) simp_all
  from n have k: "0 < k" by (simp add: k_def floorlog_def)
  have e: "exponent2 x = int (k - 1)"
    using True k by (simp add: exponent2_def k_def n_def)
  have nx: "real n \<le> \<bar>x\<bar>" "\<bar>x\<bar> < real n + 1"
    using True by (simp_all add: n_def)
  from b have "real (2 ^ (k - 1)) \<le> real n"
    by (simp only: of_nat_le_iff)
  then have p: "(2::real) ^ (k - 1) \<le> real n"
    by simp
  have "power_int 2 (exponent2 x) = (2::real) ^ (k - 1)"
    by (simp only: e power_int_of_nat)
  with p nx have l: "power_int 2 (exponent2 x) \<le> \<bar>x\<bar>"
    by linarith
  from b have "n + 1 \<le> 2 ^ k" by linarith
  then have "real (n + 1) \<le> real (2 ^ k)"
    by (simp only: of_nat_le_iff)
  then have q: "real n + 1 \<le> (2::real) ^ k"
    by simp
  have "exponent2 x + 1 = int k"
    using e k by simp
  then have "power_int 2 (exponent2 x + 1) = (2::real) ^ k"
    by (simp only: power_int_of_nat)
  with q nx have "\<bar>x\<bar> < power_int 2 (exponent2 x + 1)"
    by linarith
  with l show ?thesis by simp
next
  case False
  define y where "y = 1 / \<bar>x\<bar>"
  define n where "n = nat \<lceil>y\<rceil>"
  define m where "m = n - 1"
  define k where "k = floorlog 2 m"
  from False assms have y: "1 < y" by (simp add: y_def)
  then have n: "2 \<le> n" unfolding n_def by linarith
  then have m: "0 < m" by (simp add: m_def)
  then have b: "2 ^ (k - 1) \<le> m \<and> m < 2 ^ k"
    unfolding k_def by (intro floorlog_bounds) simp_all
  from m have k: "0 < k" by (simp add: k_def floorlog_def)
  have e: "exponent2 x = - int k"
    using False by (simp add: exponent2_def k_def m_def n_def y_def)
  have ny: "y \<le> real n" "real m < y"
    using y unfolding n_def m_def by linarith+
  from b have "m + 1 \<le> 2 ^ k" by linarith
  then have "real (m + 1) \<le> real (2 ^ k)"
    by (simp only: of_nat_le_iff)
  then have "real m + 1 \<le> (2::real) ^ k"
    by simp
  moreover have "real n = real m + 1" using n by (simp add: m_def)
  ultimately have u: "y \<le> 2 ^ k" using ny by linarith
  have ax: "0 < \<bar>x\<bar>" using assms by simp
  have pe: "power_int 2 (exponent2 x) = 1 / (2::real) ^ k"
    by (simp only: e power_int_minus_divide power_int_of_nat)
  from u ax have "1 / (2::real) ^ k \<le> \<bar>x\<bar>"
    by (simp add: y_def field_simps)
  with pe have l: "power_int 2 (exponent2 x) \<le> \<bar>x\<bar>" by simp
  from b have "real (2 ^ (k - 1)) \<le> real m"
    by (simp only: of_nat_le_iff)
  then have "(2::real) ^ (k - 1) \<le> real m"
    by simp
  with ny have v: "2 ^ (k - 1) < y" by linarith
  have "exponent2 x + 1 = - int (k - 1)"
    using e k by simp
  then have pe1: "power_int 2 (exponent2 x + 1) = 1 / (2::real) ^ (k - 1)"
    by (simp only: power_int_minus_divide power_int_of_nat)
  from v ax have "\<bar>x\<bar> < 1 / (2::real) ^ (k - 1)"
    by (simp add: y_def field_simps)
  with pe1 have "\<bar>x\<bar> < power_int 2 (exponent2 x + 1)" by simp
  with l show ?thesis by simp
qed

lemma round_half_even_nearest: "\<bar>x - of_int (round_half_even x)\<bar> \<le> 1 / 2"
  unfolding round_half_even_def Let_def by (simp; linarith)

text \<open>The example of Claim C6 in \<^verbatim>\<open>float32\<close> arithmetic: the samples are the
  nearest \<^verbatim>\<open>float32\<close> of 0.2, 0.4, 0.0 and 1.0, the sum of a frame and its
  quotient by the number of channels are rounded, and the result is the nearest
  \<^verbatim>\<open>float32\<close> of 0.3 and of 0.5.\<close>

lemma example_mean_float32:
  "float32 (float32 (float32 0.2 + float32 0.4) / 2) = float32 0.3
   \<and> float32 (float32 (float32 0.0 + float32 1.0) / 2) = float32 0.5"
  by code_simp

subsection \<open>The hotkey handlers\<close>

lemma on_press_cases:
  "App_on_press app k =
     (if key_matches (self_hotkey app) k \<and> \<not> self_recording app
      then (app\<lparr>self_recording := True, recorder := Recorder_start (recorder app)\<rparr>,
            [Print RecordingStarted])
      else (app, []))"
  by (simp add: App_on_press_def)

lemma on_release_state:
  "key_matches (self_hotkey app) k \<and> self_recording app \<Longrightarrow>
     \<exists>fx err. App_on_release app k
       = (app\<lparr>self_recording := False, recorder := fst (Recorder_stop (recorder app))\<rparr>, fx, err)"
  by (cases "Recorder_stop (recorder app)")
     (auto simp: App_on_release_def Let_def split: sum.splits)

lemma on_release_noop:
  "\<not> (key_matches (self_hotkey app) k \<and> self_recording app) \<Longrightarrow>
     App_on_release app k = (app, [], None)"
  by (auto simp: App_on_release_def)

text \<open>No event changes the hotkey; an event that changes the recording flag is a
  press of a matching key while idle or a release of a matching key while
  recording.\<close>

lemma handle_hotkey:
  assumes "handle app ev = (app1, fx, err)"
  shows "self_hotkey app1 = self_hotkey app"
proof (cases ev)
  case (Press k)
  with assms show ?thesis by (auto simp: on_press_cases split: if_splits)
next
  case (Release k)
  show ?thesis
  proof (cases "key_matches (self_hotkey app) k \<and> self_recording app")
    case True
    then obtain fx' err' where "App_on_release app k
       = (app\<lparr>self_recording := False, recorder := fst (Recorder_stop (recorder app))\<rparr>, fx', err')"
      using on_release_state by blast
    with assms Release show ?thesis by auto
  next
    case False
    with assms Release show ?thesis by (simp add: on_release_noop)
  qed
next
  case (Callback indata status)
  with assms show ?thesis
    by (auto simp: Recorder_callback_def split: if_splits)
qed

lemma handle_flag_change:
  assumes "handle app ev = (app1, fx, err)" and "self_recording app1 \<noteq> self_recording app"
  shows "(\<exists>k. ev = Press k \<and> key_matches (self_hotkey app) k \<and> \<not> self_recording app \<and> self_recording app1)
       \<or> (\<exists>k. ev = Release k \<and> key_matches (self_hotkey app) k \<and> self_recording app \<and> \<not> self_recording app1)"
proof (cases ev)
  case (Press k)
  with assms show ?thesis by (auto simp: on_press_cases split: if_splits)
next
  case (Release k)
  show ?thesis
  proof (cases "key_matches (self_hotkey app) k \<and> self_recording app")
    case True
    then obtain fx' err' where "App_on_release app k
       = (app\<lparr>self_recording := False, recorder := fst (Recorder_stop (recorder app))\<rparr>, fx', err')"
      using on_release_state by blast
    with assms Release True show ?thesis by auto
  next
    case False
    with assms Release show ?thesis by (simp add: on_release_noop)
  qed
next
  case (Callback indata status)
  with assms show ?thesis
    by (auto simp: Recorder_callback_def split: if_splits)
qed

text \<open>The list of steps is the run of the listener: its last state is the state the
  listener ends in.\<close>

lemma listener_trace_Nil_iff: "listener_trace app evs = [] \<longleftrightarrow> evs = []"
  by (cases evs) (auto split: prod.splits option.splits)

lemma listener_last_state:
  "evs \<noteq> [] \<Longrightarrow> fst (listener app evs) = snd (snd (last (listener_trace app evs)))"
proof (induction evs arbitrary: app)
  case Nil
  then show ?case by simp
next
  case (Cons ev evs)
  obtain app1 fx err where h: "handle app ev = (app1, fx, err)"
    by (metis prod_cases3)
  show ?case
  proof (cases err)
    case (Some e)
    with h show ?thesis by simp
  next
    case None
    show ?thesis
    proof (cases "evs = []")
      case True
      with h None show ?thesis by simp
    next
      case False
      then have "fst (listener app1 evs) = snd (snd (last (listener_trace app1 evs)))"
        by (rule Cons.IH)
      moreover from False have "listener_trace app1 evs \<noteq> []"
        by (simp add: listener_trace_Nil_iff)
      ultimately show ?thesis
        using h None by (cases "listener app1 evs") simp
    qed
  qed
qed

lemma flag_changes_Cons:
  assumes "handle app ev = (app1, fx, err)"
  shows "flag_changes app (ev # evs) =
           (if self_recording app1 \<noteq> self_recording app then [(ev, self_recording app1)] else [])
           @ (case err of None \<Rightarrow> flag_changes app1 evs | Some e \<Rightarrow> [])"
  using assms by (cases err) (simp_all add: flag_changes_def)

lemma alternates_flag_changes:
  "alternates (self_hotkey app) (self_recording app) (flag_changes app evs)"
proof (induction evs arbitrary: app)
  case Nil
  show ?case by (simp add: flag_changes_def)
next
  case (Cons ev evs)
  obtain app1 fx err where h: "handle app ev = (app1, fx, err)"
    by (metis prod_cases3)
  then have k: "self_hotkey app1 = self_hotkey app" by (rule handle_hotkey)
  define rest where "rest = (case err of None \<Rightarrow> flag_changes app1 evs | Some e \<Rightarrow> [])"
  have r: "alternates (self_hotkey app) (self_recording app1) rest"
  proof (cases err)
    case None
    then show ?thesis using Cons.IH [of app1] k by (simp add: rest_def)
  next
    case (Some e)
    then show ?thesis by (simp add: rest_def)
  qed
  have f: "flag_changes app (ev # evs) =
      (if self_recording app1 \<noteq> self_recording app then [(ev, self_recording app1)] else []) @ rest"
    using h by (simp add: flag_changes_Cons rest_def)
  show ?case
  proof (cases "self_recording app1 = self_recording app")
    case True
    with f r show ?thesis by simp
  next
    case False
    with h handle_flag_change
    consider k' where "ev = Press k'" "key_matches (self_hotkey app) k'" "\<not> self_recording app" "self_recording app1"
      | k' where "ev = Release k'" "key_matches (self_hotkey app) k'" "self_recording app" "\<not> self_recording app1"
      by blast
    then show ?thesis
    proof cases
      case 1
      with f r False show ?thesis by simp
    next
      case 2
      with f r False show ?thesis by simp
    qed
  qed
qed

text \<open>
  Claim C1. In every state of the application and for every key: a press of a matching
  key while idle sets the recording flag and starts the recorder (the frames are
  cleared, the stream is open); a release of a matching key while recording clears the
  flag and stops the recorder (the stream is closed); a press of a key that does not
  match or while recording, and a release of a key that does not match or while idle,
  leave the application as it was (the flag and the frames among the rest) and do
  nothing. For every list of events (key presses, key releases and chunks of the
  stream) handled from any state, the changes of the flag alternate strictly: idle to
  recording by a press of a matching key, recording to idle by a release of a matching
  key, and so on.
\<close>

theorem recording_flag_alternates:
  "(key_matches (self_hotkey app) k \<and> \<not> self_recording app \<longrightarrow>
      App_on_press app k
        = (app\<lparr>self_recording := True, recorder := Recorder_start (recorder app)\<rparr>,
           [Print RecordingStarted])
      \<and> self_stream (Recorder_start (recorder app)) \<noteq> None)
   \<and> (key_matches (self_hotkey app) k \<and> self_recording app \<longrightarrow>
      (\<exists>fx err. App_on_release app k
         = (app\<lparr>self_recording := False, recorder := fst (Recorder_stop (recorder app))\<rparr>, fx, err))
      \<and> self_stream (fst (Recorder_stop (recorder app))) = None)
   \<and> (\<not> key_matches (self_hotkey app) k \<or> self_recording app \<longrightarrow> App_on_press app k = (app, []))
   \<and> (\<not> key_matches (self_hotkey app) k \<or> \<not> self_recording app \<longrightarrow>
      App_on_release app k = (app, [], None))
   \<and> alternates (self_hotkey app) (self_recording app) (flag_changes app evs)"
proof -
  have "self_stream (Recorder_start (recorder app)) \<noteq> None"
    by (simp add: Recorder_start_def)
  moreover have "self_stream (fst (Recorder_stop (recorder app))) = None"
    by (simp add: Recorder_stop_def Let_def split: sum.splits)
  moreover have "\<not> key_matches (self_hotkey app) k \<or> \<not> self_recording app \<Longrightarrow>
      App_on_release app k = (app, [], None)"
    using on_release_noop [of app k] by blast
  moreover have "\<not> key_matches (self_hotkey app) k \<or> self_recording app \<Longrightarrow>
      App_on_press app k = (app, [])"
    by (auto simp: on_press_cases)
  moreover have "key_matches (self_hotkey app) k \<and> \<not> self_recording app \<Longrightarrow>
      App_on_press app k
        = (app\<lparr>self_recording := True, recorder := Recorder_start (recorder app)\<rparr>,
           [Print RecordingStarted])"
    by (simp add: on_press_cases)
  ultimately show ?thesis
    using on_release_state [of app k] alternates_flag_changes [of app evs] by blast
qed

theorem recording_flag_alternates_witness:
  "key_matches (self_hotkey example_app) (Key ''ctrl_r'') \<and> \<not> self_recording example_app
   \<and> App_on_press example_app (Key ''ctrl_r'') = (recording_app, [Print RecordingStarted])
   \<and> App_on_release example_app (Key ''ctrl_r'') = (example_app, [], None)
   \<and> self_recording recording_app
   \<and> App_on_press recording_app (Key ''ctrl_r'') = (recording_app, [])
   \<and> App_on_release recording_app (Key ''ctrl_r'') = (example_app, [Print NoAudioCaptured], None)
   \<and> flag_changes example_app example_events
       = [(Press (Key ''ctrl_r''), True), (Release (Key ''ctrl_l''), False),
          (Press (Key ''ctrl_l''), True), (Release (Key ''ctrl_r''), False)]
   \<and> alternates (Key ''ctrl_l'') False
        [(Press (Key ''ctrl_r''), True), (Release (Key ''ctrl_l''), False),
         (Press (Key ''ctrl_l''), True), (Release (Key ''ctrl_r''), False)]"
proof -
  have m: "key_matches (self_hotkey example_app) (Key ''ctrl_r'') \<and> \<not> self_recording example_app"
    by code_simp
  have m': "key_matches (self_hotkey recording_app) (Key ''ctrl_r'') \<and> self_recording recording_app"
    by code_simp
  have h: "self_hotkey example_app = Key ''ctrl_l''" "self_recording example_app = False"
    by (simp_all add: example_app_def)
  have c: "flag_changes example_app example_events
       = [(Press (Key ''ctrl_r''), True), (Release (Key ''ctrl_l''), False),
          (Press (Key ''ctrl_l''), True), (Release (Key ''ctrl_r''), False)]"
    by code_simp
  have s: "App_on_release recording_app (Key ''ctrl_r'') = (example_app, [Print NoAudioCaptured], None)"
    by code_simp
  show ?thesis
    using m m' h c s
      recording_flag_alternates [of example_app "Key ''ctrl_r''" example_events]
      recording_flag_alternates [of recording_app "Key ''ctrl_r''" "[]"]
    by (simp add: recording_app_def)
qed

text \<open>
  Claim C5. \<^verbatim>\<open>stop\<close> of a recorder without frames returns the empty array, whose
  size is 0. Whenever \<^verbatim>\<open>stop\<close> returns an array of size 0, the release of a
  matching key while recording prints that no audio was captured and does nothing else:
  in no case does the handler start a thread of a pipeline run or invoke a stage.
\<close>

theorem empty_capture_is_not_dispatched:
  "(self_frames r = [] \<longrightarrow>
      Recorder_stop r = (r\<lparr>self_stream := None\<rparr>, Inr (Arr1 [])) \<and> size_nd (Arr1 []) = 0)
   \<and> (snd (Recorder_stop (recorder app)) = Inr audio \<and> size_nd audio = 0 \<longrightarrow>
        (key_matches (self_hotkey app) k \<and> self_recording app \<longrightarrow>
           App_on_release app k
             = (app\<lparr>self_recording := False, recorder := fst (Recorder_stop (recorder app))\<rparr>,
                [Print NoAudioCaptured], None))
        \<and> (\<forall>a. Spawn a \<notin> set (fst (snd (App_on_release app k))))
        \<and> (\<forall>st. Invoke st \<notin> set (fst (snd (App_on_release app k)))))"
proof -
  have a: "Recorder_stop r = (r\<lparr>self_stream := None\<rparr>, Inr (Arr1 []))" if "self_frames r = []"
    using that by (simp add: Recorder_stop_def)
  have b: "App_on_release app k
             = (app\<lparr>self_recording := False, recorder := fst (Recorder_stop (recorder app))\<rparr>,
                [Print NoAudioCaptured], None)"
    if s: "snd (Recorder_stop (recorder app)) = Inr audio" and z: "size_nd audio = 0"
      and m: "key_matches (self_hotkey app) k \<and> self_recording app"
  proof -
    obtain r1 where "Recorder_stop (recorder app) = (r1, Inr audio)"
      using s by (cases "Recorder_stop (recorder app)") simp
    with z m show ?thesis by (simp add: App_on_release_def)
  qed
  have c: "(\<forall>a. Spawn a \<notin> set (fst (snd (App_on_release app k))))
        \<and> (\<forall>st. Invoke st \<notin> set (fst (snd (App_on_release app k))))"
    if s: "snd (Recorder_stop (recorder app)) = Inr audio" and z: "size_nd audio = 0"
  proof (cases "key_matches (self_hotkey app) k \<and> self_recording app")
    case True
    with s z show ?thesis by (simp add: b)
  next
    case False
    then show ?thesis by (simp add: on_release_noop)
  qed
  from a b c show ?thesis by simp
qed

theorem empty_capture_is_not_dispatched_witness:
  "self_frames (recorder recording_app) = []
   \<and> Recorder_stop (recorder recording_app) = (recorder example_app, Inr (Arr1 []))
   \<and> key_matches (self_hotkey recording_app) (Key ''ctrl_r'') \<and> self_recording recording_app
   \<and> App_on_release recording_app (Key ''ctrl_r'') = (example_app, [Print NoAudioCaptured], None)
   \<and> snd (Recorder_stop ((recorder recording_app)\<lparr>self_frames := [Arr2 1 []]\<rparr>)) = Inr (Arr1 [])
   \<and> snd (snd (App_on_release
        (recording_app\<lparr>recorder := (recorder recording_app)\<lparr>self_frames := [Arr2 1 []]\<rparr>\<rparr>)
        (Key ''ctrl_l''))) = None
   \<and> fst (snd (App_on_release
        (recording_app\<lparr>recorder := (recorder recording_app)\<lparr>self_frames := [Arr2 1 []]\<rparr>\<rparr>)
        (Key ''ctrl_l''))) = [Print NoAudioCaptured]"
proof -
  have f: "self_frames (recorder recording_app) = []"
    by (simp add: recording_app_def Recorder_start_def)
  have m: "key_matches (self_hotkey recording_app) (Key ''ctrl_r'') \<and> self_recording recording_app"
    by code_simp
  have m': "key_matches (self_hotkey recording_app) (Key ''ctrl_l'') \<and> self_recording recording_app"
    by code_simp
  have e: "fst (Recorder_stop (recorder recording_app)) = recorder example_app"
    by (simp add: recording_app_def Recorder_start_def Recorder_stop_def example_app_def
        Recorder_init_def)
  have x: "example_app = recording_app\<lparr>self_recording := False, recorder := recorder example_app\<rparr>"
    by (simp add: recording_app_def example_app_def)
  have s: "snd (Recorder_stop ((recorder recording_app)\<lparr>self_frames := [Arr2 1 []]\<rparr>)) = Inr (Arr1 [])"
    by (simp add: Recorder_stop_def)
  show ?thesis
    using f m m' e s
      empty_capture_is_not_dispatched
        [of "recorder recording_app" recording_app "Arr1 []" "Key ''ctrl_r''"]
      empty_capture_is_not_dispatched
        [of "recorder recording_app"
            "recording_app\<lparr>recorder := (recorder recording_app)\<lparr>self_frames := [Arr2 1 []]\<rparr>\<rparr>"
            "Arr1 []" "Key ''ctrl_l''"]
    by (simp add: x [symmetric])
qed

end
